theory Spec2Isabelle
  imports Main
begin

section \<open>The ge_tutorials pipeline (airflow/ge_tutorials_dag.py)\<close>

text \<open>
  The file defines three Python callables (\<open>load_files_into_db\<close>, \<open>publish_to_prod\<close>,
  \<open>validate_analytical_output\<close>), five operators and one dependency chain. The callables
  drive external collaborators: a relational database (through SQLAlchemy and pandas), the
  file system, the validation engine and the scheduler. The embedding keeps the control
  flow of the callables as it is written and makes each collaborator explicit:
  \<^item> the database is a catalogue of tables, changed by the statements the code issues;
  \<^item> the file system maps a path to the frame \<open>pd.read_csv\<close> reads from it;
  \<^item> an exception is a value \<open>Inl e\<close>; since every statement commits on its own, a callable
    returns the world it has reached also when it raises;
  \<^item> the world carries the list of operations issued so far, in the order of issue.
\<close>

subsection \<open>Values, frames and tables\<close>

datatype cell = IntCell int | StrCell string | NaN

text \<open>A pandas DataFrame: column labels, the row index and the rows.\<close>

record dataframe =
  columns :: "string list"
  index :: "cell list"
  rows :: "cell list list"

text \<open>
  Modelled from the spec: \<open>pd.read_csv\<close> of pandas, whose code is not in the repository.
  The frames it returns: it makes repeated header names distinct before it builds the
  frame, and every row has one cell for each column. A frame changed by \<open>rename\<close> need
  not keep the first property, so it is not asked of every frame.
\<close>

typedef parsed = "{df :: dataframe. distinct (columns df) \<and> list_all (\<lambda>r. length r = length (columns df)) (rows df)}"
  morphisms frame_of Parsed
proof
  show "\<lparr>columns = [], index = [], rows = []\<rparr> \<in>
          {df :: dataframe. distinct (columns df) \<and> list_all (\<lambda>r. length r = length (columns df)) (rows df)}"
    by simp
qed

text \<open>
  A table of the database: column names, rows, and the names of the objects of other
  relations that depend on it (views, foreign keys).
\<close>

record table =
  col_names :: "string list"
  tuples :: "cell list list"
  dependents :: "string list"

type_synonym database = "string \<rightharpoonup> table"

datatype error =
    ArgumentError
  | OperationalError
  | ProgrammingError string
  | FileNotFoundError string
  | TypeError
  | KeyError string
  | AttributeError string
  | ValueError string
  | AirflowException string
  | ExternalError string

subsection \<open>The statements the pipeline issues\<close>

text \<open>
  Modelled from the spec: the database server, an external collaborator whose code is not
  in the repository (the file only sends it statements). The statements are
  \<^verbatim>\<open>drop table if exists T [cascade]\<close> and \<^verbatim>\<open>alter table A rename to B\<close>, with the
  meaning PostgreSQL gives them: a drop of an absent table does nothing; a drop without
  \<open>cascade\<close> is refused while other objects depend on the table; with \<open>cascade\<close> the
  dependent objects go too (also where another table lists them); a rename is refused when
  the table is absent or the new name is taken, and the dependent objects follow the table.
  Objects that depend on dependent objects are not modelled.
\<close>

datatype statement =
    DropTableIfExists string bool
  | AlterTableRename string string

definition forget_objects :: "string list \<Rightarrow> table \<Rightarrow> table" where
  "forget_objects ds t = t\<lparr>dependents := filter (\<lambda>obj. obj \<notin> set ds) (dependents t)\<rparr>"

definition drop_table :: "string \<Rightarrow> bool \<Rightarrow> database \<Rightarrow> error + database" where
  "drop_table name cascade d =
     (case d name of
        None \<Rightarrow> Inr d
      | Some t \<Rightarrow>
          if dependents t \<noteq> [] \<and> \<not> cascade
          then Inl (ProgrammingError ''cannot drop table because other objects depend on it'')
          else Inr (\<lambda>n. if n = name then None
                         else map_option (forget_objects (dependents t)) (d n)))"

definition rename_table :: "string \<Rightarrow> string \<Rightarrow> database \<Rightarrow> error + database" where
  "rename_table old new d =
     (case d old of
        None \<Rightarrow> Inl (ProgrammingError ''relation does not exist'')
      | Some t \<Rightarrow>
          (case d new of
             Some _ \<Rightarrow> Inl (ProgrammingError ''relation already exists'')
           | None \<Rightarrow> Inr ((d(old := None))(new \<mapsto> t))))"

fun execute_statement :: "statement \<Rightarrow> database \<Rightarrow> error + database" where
  "execute_statement (DropTableIfExists name cascade) d = drop_table name cascade d"
| "execute_statement (AlterTableRename old new) d = rename_table old new d"

text \<open>
  Modelled from the spec: \<open>DataFrame.to_sql(name, engine, if_exists=..., index=...)\<close> of
  pandas, whose code is not in the repository. The frame becomes a new table (with the
  index as a first column named \<open>index\<close> when \<open>index\<close> is set). pandas declares one
  SQLAlchemy column for each label and inserts each row as a dictionary from label to
  value. The file passes plain text to \<open>execute\<close>, which only SQLAlchemy 1.x accepts, and
  there a column declared under a name already present takes the place of the earlier one
  without an error. So the table has each label once, at the place of its first
  occurrence, and a row holds under a label the value of the last frame column that
  carries it; nothing is raised. When the table exists, \<open>fail\<close> raises, \<open>replace\<close> drops
  it first (a plain drop), \<open>append\<close> adds the rows.
\<close>

datatype if_exists = Fail | Replace | Append

definition sql_columns :: "string list \<Rightarrow> string list" where
  "sql_columns labels = rev (remdups (rev labels))"

definition sql_row :: "string list \<Rightarrow> cell list \<Rightarrow> cell list" where
  "sql_row labels r =
     map (\<lambda>c. case map_of (rev (zip labels r)) c of None \<Rightarrow> NaN | Some v \<Rightarrow> v)
       (sql_columns labels)"

definition frame_table :: "dataframe \<Rightarrow> bool \<Rightarrow> table" where
  "frame_table df with_index =
     (let labels = (if with_index then ''index'' # columns df else columns df);
          data = (if with_index then map (\<lambda>(i, r). i # r) (zip (index df) (rows df))
                  else rows df)
      in \<lparr>col_names = sql_columns labels, tuples = map (sql_row labels) data,
          dependents = []\<rparr>)"

definition store_frame :: "dataframe \<Rightarrow> string \<Rightarrow> if_exists \<Rightarrow> bool \<Rightarrow> database \<Rightarrow> error + database" where
  "store_frame df name mode with_index d =
     (let t = frame_table df with_index in
      case d name of
        None \<Rightarrow> Inr (d(name \<mapsto> t))
      | Some old \<Rightarrow>
          (case mode of
             Fail \<Rightarrow> Inl (ValueError ''Table already exists'')
           | Replace \<Rightarrow>
               (case drop_table name False d of
                  Inl e \<Rightarrow> Inl e
                | Inr d' \<Rightarrow> Inr (d'(name \<mapsto> t)))
           | Append \<Rightarrow>
               if col_names old = col_names t
               then Inr (d(name \<mapsto> old\<lparr>tuples := tuples old @ tuples t\<rparr>))
               else Inl (ProgrammingError ''column does not exist'')))"

subsection \<open>The world the callables act on\<close>

text \<open>
  A batch of the validation engine: the \<open>batch_kwargs\<close> that say where the data is, and the
  name of the expectation suite bound to it.
\<close>

record batch =
  batch_kwargs :: "(string \<times> string) list"
  expectation_suite_name :: string

datatype event =
    Execute statement
  | ReadCsv string
  | ToSql string
  | RunValidationOperator string "batch list" string
  | Bash string

text \<open>
  \<open>reachable\<close>: the server at the configured URL accepts connections. \<open>files\<close>: the frame
  \<open>pd.read_csv\<close> returns for a path (the parsing of the text of a CSV file is pandas' and is
  not modelled); a path without a frame raises. \<open>trace\<close>: the operations issued, oldest
  first.
\<close>

record world =
  reachable :: bool
  db :: database
  files :: "string \<rightharpoonup> parsed"
  trace :: "event list"

text \<open>\<open>os.getenv\<close> gives \<open>None\<close> for a variable that is not set.\<close>

record env =
  GE_TUTORIAL_DB_URL :: "string option"
  GE_TUTORIAL_PROJECT_PATH :: "string option"

definition issue :: "event \<Rightarrow> world \<Rightarrow> world" where
  "issue ev w = w\<lparr>trace := trace w @ [ev]\<rparr>"

definition create_engine :: "string option \<Rightarrow> error + string" where
  "create_engine url = (case url of None \<Rightarrow> Inl ArgumentError | Some u \<Rightarrow> Inr u)"

definition connect :: "string \<Rightarrow> world \<Rightarrow> error + unit" where
  "connect engine w = (if reachable w then Inr () else Inl OperationalError)"

definition conn_execute :: "statement \<Rightarrow> world \<Rightarrow> (error + unit) \<times> world" where
  "conn_execute s w =
     (case execute_statement s (db w) of
        Inl e \<Rightarrow> (Inl e, issue (Execute s) w)
      | Inr d \<Rightarrow> (Inr (), issue (Execute s) (w\<lparr>db := d\<rparr>)))"

text \<open>\<open>os.path.join(a, b)\<close> on POSIX, for two components; \<open>a\<close> may be \<open>None\<close>.\<close>

definition os_path_join :: "string option \<Rightarrow> string \<Rightarrow> error + string" where
  "os_path_join a b =
     (case a of
        None \<Rightarrow> Inl TypeError
      | Some p \<Rightarrow>
          if b \<noteq> [] \<and> hd b = CHR ''/'' then Inr b
          else if p = [] \<or> last p = CHR ''/'' then Inr (p @ b)
          else Inr (p @ ''/'' @ b))"

definition read_csv :: "string \<Rightarrow> world \<Rightarrow> (error + dataframe) \<times> world" where
  "read_csv path w =
     (case files w path of
        None \<Rightarrow> (Inl (FileNotFoundError path), issue (ReadCsv path) w)
      | Some csv \<Rightarrow> (Inr (frame_of csv), issue (ReadCsv path) w))"

definition to_sql :: "dataframe \<Rightarrow> string \<Rightarrow> if_exists \<Rightarrow> bool \<Rightarrow> world \<Rightarrow> (error + unit) \<times> world" where
  "to_sql df name mode with_index w =
     (case store_frame df name mode with_index (db w) of
        Inl e \<Rightarrow> (Inl e, issue (ToSql name) w)
      | Inr d \<Rightarrow> (Inr (), issue (ToSql name) (w\<lparr>db := d\<rparr>)))"

text \<open>
  What the scheduler passes to a callable declared with \<open>provide_context=True\<close>: under
  \<open>dag_run\<close> the run (its \<open>run_id\<close> and \<open>start_date\<close>), under \<open>ti\<close> the task instance, through
  which the values earlier tasks returned (XCom, by task id) can be pulled. \<open>'d\<close> is the
  type of timestamps.
\<close>

datatype 'd kwarg =
    DagRun string 'd
  | TaskInstance "string \<rightharpoonup> string"
  | OtherValue

subsection \<open>Column renaming\<close>

text \<open>
  \<open>{old: old.lower() for old in df.columns}\<close> and \<open>df.rename(columns=d)\<close>: a label without
  an entry stays. \<open>lower\<close> stands for Python's \<open>str.lower\<close>, which knows all of Unicode
  and is not spelled out: it is a parameter, and what is proved holds for every function
  in its place.
\<close>

definition column_rename_dict :: "(string \<Rightarrow> string) \<Rightarrow> string list \<Rightarrow> (string \<rightharpoonup> string)" where
  "column_rename_dict lower cols =
     map_of (map (\<lambda>old_column_name. (old_column_name, lower old_column_name)) cols)"

definition rename_columns :: "(string \<rightharpoonup> string) \<Rightarrow> dataframe \<Rightarrow> dataframe" where
  "rename_columns d df =
     df\<lparr>columns := map (\<lambda>c. case d c of None \<Rightarrow> c | Some c' \<Rightarrow> c') (columns df)\<rparr>"

subsection \<open>load_files_into_db\<close>

text \<open>
  The callable is declared \<open>load_files_into_db(ds, **kwargs)\<close> and uses neither argument;
  \<open>kwargs\<close> stands for the whole context the operator passes.
\<close>

definition load_files_into_db ::
  "(string \<Rightarrow> string) \<Rightarrow> env \<Rightarrow> (string \<rightharpoonup> 'd kwarg) \<Rightarrow> world \<Rightarrow> (error + string) \<times> world" where
  "load_files_into_db lower ev kwargs w =
     (case create_engine (GE_TUTORIAL_DB_URL ev) of
        Inl e \<Rightarrow> (Inl e, w)
      | Inr engine \<Rightarrow>
     (case connect engine w of
        Inl e \<Rightarrow> (Inl e, w)
      | Inr conn \<Rightarrow>
     (case conn_execute (DropTableIfExists ''npi_small'' True) w of
        (Inl e, w1) \<Rightarrow> (Inl e, w1)
      | (Inr _, w1) \<Rightarrow>
     (case conn_execute (DropTableIfExists ''state_abbreviations'' True) w1 of
        (Inl e, w2) \<Rightarrow> (Inl e, w2)
      | (Inr _, w2) \<Rightarrow>
     (case os_path_join (GE_TUTORIAL_PROJECT_PATH ev) ''data/npi_small.csv'' of
        Inl e \<Rightarrow> (Inl e, w2)
      | Inr npi_path \<Rightarrow>
     (case read_csv npi_path w2 of
        (Inl e, w3) \<Rightarrow> (Inl e, w3)
      | (Inr df_npi_small, w3) \<Rightarrow>
     (case to_sql (rename_columns (column_rename_dict lower (columns df_npi_small)) df_npi_small)
             ''npi_small'' Replace False w3 of
        (Inl e, w4) \<Rightarrow> (Inl e, w4)
      | (Inr _, w4) \<Rightarrow>
     (case os_path_join (GE_TUTORIAL_PROJECT_PATH ev) ''data/state_abbreviations.csv'' of
        Inl e \<Rightarrow> (Inl e, w4)
      | Inr state_path \<Rightarrow>
     (case read_csv state_path w4 of
        (Inl e, w5) \<Rightarrow> (Inl e, w5)
      | (Inr df_state_abbreviations, w5) \<Rightarrow>
     (case to_sql df_state_abbreviations ''state_abbreviations'' Replace False w5 of
        (Inl e, w6) \<Rightarrow> (Inl e, w6)
      | (Inr _, w6) \<Rightarrow> (Inr ''Loaded files into the database'', w6)))))))))))"

subsection \<open>publish_to_prod\<close>

definition publish_to_prod :: "env \<Rightarrow> world \<Rightarrow> (error + unit) \<times> world" where
  "publish_to_prod ev w =
     (case create_engine (GE_TUTORIAL_DB_URL ev) of
        Inl e \<Rightarrow> (Inl e, w)
      | Inr engine \<Rightarrow>
     (case connect engine w of
        Inl e \<Rightarrow> (Inl e, w)
      | Inr conn \<Rightarrow>
     (case conn_execute (DropTableIfExists ''prod_count_providers_by_state'' False) w of
        (Inl e, w1) \<Rightarrow> (Inl e, w1)
      | (Inr _, w1) \<Rightarrow>
     (case conn_execute
             (AlterTableRename ''count_providers_by_state'' ''prod_count_providers_by_state'') w1 of
        (Inl e, w2) \<Rightarrow> (Inl e, w2)
      | (Inr _, w2) \<Rightarrow> (Inr (), w2)))))"

subsection \<open>validate_analytical_output\<close>

datatype py_value = PyNone | PyBool bool | PyInt int | PyStr string

text \<open>The truth value Python's \<open>not\<close> takes of a value.\<close>

fun truthy :: "py_value \<Rightarrow> bool" where
  "truthy PyNone = False"
| "truthy (PyBool b) = b"
| "truthy (PyInt i) = (i \<noteq> 0)"
| "truthy (PyStr s) = (s \<noteq> [])"

text \<open>
  The collaborators whose code is not in the file, as parameters: the validation engine
  (\<open>DataContext()\<close>, \<open>get_batch\<close>, \<open>run_validation_operator\<close>, each of which may raise; the
  operator returns a dictionary), \<open>str\<close> on a timestamp, \<open>str.lower\<close>, and the shell (a
  command run against the database gives an exit status and the database it leaves).
\<close>

record 'd externals =
  data_context :: "world \<Rightarrow> error + unit"
  get_batch :: "(string \<times> string) list \<Rightarrow> string \<Rightarrow> database \<Rightarrow> error + batch"
  run_validation_operator ::
    "string \<Rightarrow> batch list \<Rightarrow> string \<Rightarrow> database \<Rightarrow> error + (string \<rightharpoonup> py_value)"
  str_of :: "'d \<Rightarrow> string"
  str_lower :: "string \<Rightarrow> string"
  shell :: "string \<Rightarrow> database \<Rightarrow> int \<times> database"

text \<open>\<open>kwargs['dag_run'].run_id\<close> and \<open>kwargs['dag_run'].start_date\<close>.\<close>

definition dag_run_attributes :: "(string \<rightharpoonup> 'd kwarg) \<Rightarrow> error + string \<times> 'd" where
  "dag_run_attributes kwargs =
     (case kwargs ''dag_run'' of
        None \<Rightarrow> Inl (KeyError ''dag_run'')
      | Some (DagRun r s) \<Rightarrow> Inr (r, s)
      | Some _ \<Rightarrow> Inl (AttributeError ''run_id''))"

definition call_validation_operator ::
  "'d externals \<Rightarrow> string \<Rightarrow> batch list \<Rightarrow> string \<Rightarrow> world
     \<Rightarrow> (error + (string \<rightharpoonup> py_value)) \<times> world" where
  "call_validation_operator ext name assets_to_validate run_id w =
     (run_validation_operator ext name assets_to_validate run_id (db w),
      issue (RunValidationOperator name assets_to_validate run_id) w)"

text \<open>
  \<open>utcnow\<close> is \<open>datetime.utcnow().strftime("%Y%m%dT%H%M%S.%fZ")\<close>, the first value assigned
  to \<open>run_id\<close>; the second assignment follows at once.
\<close>

definition validate_analytical_output ::
  "'d externals \<Rightarrow> string \<Rightarrow> (string \<rightharpoonup> 'd kwarg) \<Rightarrow> world \<Rightarrow> (error + unit) \<times> world" where
  "validate_analytical_output ext utcnow kwargs w =
     (case data_context ext w of
        Inl e \<Rightarrow> (Inl e, w)
      | Inr context \<Rightarrow>
     (let datasource_name = ''datawarehouse'';
          batch_kwargs = [(''table'', ''count_providers_by_state''), (''datasource'', datasource_name)];
          expectation_suite_name = ''count_providers_by_state.critical''
      in
     (case get_batch ext batch_kwargs expectation_suite_name (db w) of
        Inl e \<Rightarrow> (Inl e, w)
      | Inr batch \<Rightarrow>
     (let run_id = utcnow in
     (case dag_run_attributes kwargs of
        Inl e \<Rightarrow> (Inl e, w)
      | Inr (dag_run_id, start_date) \<Rightarrow>
     (let run_id = ''airflow:'' @ dag_run_id @ '':'' @ str_of ext start_date in
     (case call_validation_operator ext ''action_list_operator'' [batch] run_id w of
        (Inl e, w1) \<Rightarrow> (Inl e, w1)
      | (Inr results, w1) \<Rightarrow>
     (case results ''success'' of
        None \<Rightarrow> (Inl (KeyError ''success''), w1)
      | Some success \<Rightarrow>
          if \<not> truthy success
          then (Inl (AirflowException
                  (''The analytical output does not meet the expectations in the suite: ''
                     @ expectation_suite_name)), w1)
          else (Inr (), w1)))))))))"

subsection \<open>The operators and the dependency chain\<close>

datatype python_callable = Load_files_into_db | Publish_to_prod | Validate_analytical_output

text \<open>
  \<open>PythonOperator(task_id, provide_context, python_callable)\<close> and
  \<open>BashOperator(task_id, bash_command)\<close>.
\<close>

datatype operator =
    PythonOperator string bool python_callable
  | BashOperator string string

fun task_id :: "operator \<Rightarrow> string" where
  "task_id (PythonOperator name _ _) = name"
| "task_id (BashOperator name _) = name"

text \<open>\<open>'{}'.format(x)\<close> for a value of \<open>os.getenv\<close>.\<close>

definition format_env :: "string option \<Rightarrow> string" where
  "format_env x = (case x of None \<Rightarrow> ''None'' | Some s \<Rightarrow> s)"

definition task_load_files_into_db :: operator where
  "task_load_files_into_db = PythonOperator ''task_load_files_into_db'' True Load_files_into_db"

definition task_dbt :: "env \<Rightarrow> operator" where
  "task_dbt ev =
     BashOperator ''task_dbt'' (''dbt run --project-dir '' @ format_env (GE_TUTORIAL_PROJECT_PATH ev))"

definition task_publish :: operator where
  "task_publish = PythonOperator ''task_publish'' False Publish_to_prod"

definition task_validate_source_data_load :: operator where
  "task_validate_source_data_load = BashOperator ''task_validate_source_data_load'' []"

definition task_validate_analytical_output :: operator where
  "task_validate_analytical_output =
     PythonOperator ''task_validate_analytical_output'' True Validate_analytical_output"

text \<open>\<open>a >> b >> c ...\<close>: each \<open>>>\<close> adds the edge to its right operand and returns it.\<close>

fun rshift :: "operator \<Rightarrow> operator list \<Rightarrow> (string \<times> string) list" where
  "rshift a [] = []"
| "rshift a (b # bs) = (task_id a, task_id b) # rshift b bs"

text \<open>The DAG: its operators in the order the file creates them, and the edges.\<close>

record dag =
  dag_id :: string
  tasks :: "operator list"
  edges :: "(string \<times> string) list"

definition ge_tutorials_dag :: "env \<Rightarrow> dag" where
  "ge_tutorials_dag ev =
     \<lparr>dag_id = ''ge_tutorials_dag'',
      tasks = [task_load_files_into_db, task_dbt ev, task_publish,
               task_validate_source_data_load, task_validate_analytical_output],
      edges = rshift task_load_files_into_db
                [task_validate_source_data_load, task_dbt ev,
                 task_validate_analytical_output, task_publish]\<rparr>"

subsection \<open>Running the operators\<close>

text \<open>
  A Python operator calls its callable, with the context when \<open>provide_context\<close> is set, and
  hands the returned value (if not \<open>None\<close>) to XCom. The two callables declared with
  \<open>(ds, **kwargs)\<close> need the context; \<open>publish_to_prod()\<close> takes no argument.
\<close>

fun call_python ::
  "'d externals \<Rightarrow> env \<Rightarrow> string \<Rightarrow> python_callable \<Rightarrow> bool \<Rightarrow> (string \<rightharpoonup> 'd kwarg) \<Rightarrow> world
     \<Rightarrow> (error + string option) \<times> world" where
  "call_python ext ev utcnow Load_files_into_db provide_context kwargs w =
     (if \<not> provide_context then (Inl TypeError, w)
      else case load_files_into_db (str_lower ext) ev kwargs w of
             (Inl e, w') \<Rightarrow> (Inl e, w')
           | (Inr r, w') \<Rightarrow> (Inr (Some r), w'))"
| "call_python ext ev utcnow Validate_analytical_output provide_context kwargs w =
     (if \<not> provide_context then (Inl TypeError, w)
      else case validate_analytical_output ext utcnow kwargs w of
             (Inl e, w') \<Rightarrow> (Inl e, w')
           | (Inr _, w') \<Rightarrow> (Inr None, w'))"
| "call_python ext ev utcnow Publish_to_prod provide_context kwargs w =
     (if provide_context then (Inl TypeError, w)
      else case publish_to_prod ev w of
             (Inl e, w') \<Rightarrow> (Inl e, w')
           | (Inr _, w') \<Rightarrow> (Inr None, w'))"

text \<open>A Bash operator fails when the command exits with a status other than 0.\<close>

definition run_bash :: "'d externals \<Rightarrow> string \<Rightarrow> world \<Rightarrow> (error + string option) \<times> world" where
  "run_bash ext bash_command w =
     (case shell ext bash_command (db w) of
        (status, d) \<Rightarrow>
          if status \<noteq> 0
          then (Inl (AirflowException ''Bash command failed''), issue (Bash bash_command) (w\<lparr>db := d\<rparr>))
          else (Inr None, issue (Bash bash_command) (w\<lparr>db := d\<rparr>)))"

fun execute_operator ::
  "'d externals \<Rightarrow> env \<Rightarrow> string \<Rightarrow> operator \<Rightarrow> (string \<rightharpoonup> 'd kwarg) \<Rightarrow> world
     \<Rightarrow> (error + string option) \<times> world" where
  "execute_operator ext ev utcnow (PythonOperator _ provide_context f) kwargs w =
     call_python ext ev utcnow f provide_context kwargs w"
| "execute_operator ext ev utcnow (BashOperator _ bash_command) kwargs w =
     run_bash ext bash_command w"

subsection \<open>The scheduler\<close>

text \<open>
  Modelled from the spec: the scheduler (Airflow), an external collaborator whose code is
  not in the repository; the file gives it the operators and the edges only.
  The operators set neither \<open>trigger_rule\<close> nor \<open>retries\<close>, so the scheduler's defaults
  hold: a task is run once, when every task upstream of it has succeeded
  (\<open>all_success\<close>); when one of them has failed or was itself not run, the task is marked
  \<open>upstream_failed\<close> and is not run. \<open>executed\<close> lists the tasks that were run, in order.
\<close>

datatype task_state = Success | Failed | UpstreamFailed

record run_state =
  states :: "string \<rightharpoonup> task_state"
  xcom :: "string \<rightharpoonup> string"
  executed :: "string list"
  world_of :: world

definition upstream_of :: "dag \<Rightarrow> string \<Rightarrow> string list" where
  "upstream_of g t = map fst (filter (\<lambda>(a, b). b = t) (edges g))"

text \<open>The next task to settle: the first one without a state whose upstream tasks all have one.\<close>

fun next_task :: "dag \<Rightarrow> (string \<rightharpoonup> task_state) \<Rightarrow> operator list \<Rightarrow> operator option" where
  "next_task g st [] = None"
| "next_task g st (t # ts) =
     (if st (task_id t) = None \<and> list_all (\<lambda>u. st u \<noteq> None) (upstream_of g (task_id t))
      then Some t else next_task g st ts)"

definition context_of :: "string \<Rightarrow> 'd \<Rightarrow> run_state \<Rightarrow> (string \<rightharpoonup> 'd kwarg)" where
  "context_of dag_run_id start_date rs =
     [''dag_run'' \<mapsto> DagRun dag_run_id start_date, ''ti'' \<mapsto> TaskInstance (xcom rs)]"

text \<open>Running a task: it fails when its operator raises; a returned value goes to XCom.\<close>

definition run_task ::
  "'d externals \<Rightarrow> env \<Rightarrow> string \<Rightarrow> string \<Rightarrow> 'd \<Rightarrow> operator \<Rightarrow> run_state \<Rightarrow> run_state" where
  "run_task ext ev utcnow dag_run_id start_date t rs =
     (case execute_operator ext ev utcnow t (context_of dag_run_id start_date rs) (world_of rs) of
        (Inl e, w') \<Rightarrow>
          rs\<lparr>states := (states rs)(task_id t \<mapsto> Failed),
             executed := executed rs @ [task_id t],
             world_of := w'\<rparr>
      | (Inr r, w') \<Rightarrow>
          rs\<lparr>states := (states rs)(task_id t \<mapsto> Success),
             xcom := (case r of None \<Rightarrow> xcom rs | Some v \<Rightarrow> (xcom rs)(task_id t \<mapsto> v)),
             executed := executed rs @ [task_id t],
             world_of := w'\<rparr>)"

definition skip_task :: "operator \<Rightarrow> run_state \<Rightarrow> run_state" where
  "skip_task t rs = rs\<lparr>states := (states rs)(task_id t \<mapsto> UpstreamFailed)\<rparr>"

definition scheduler_step ::
  "'d externals \<Rightarrow> env \<Rightarrow> string \<Rightarrow> string \<Rightarrow> 'd \<Rightarrow> dag \<Rightarrow> run_state \<Rightarrow> run_state" where
  "scheduler_step ext ev utcnow dag_run_id start_date g rs =
     (case next_task g (states rs) (tasks g) of
        None \<Rightarrow> rs
      | Some t \<Rightarrow>
          if list_all (\<lambda>u. states rs u = Some Success) (upstream_of g (task_id t))
          then run_task ext ev utcnow dag_run_id start_date t rs
          else skip_task t rs)"

text \<open>One run of the DAG: every step settles one task, so one step per task settles all.\<close>

definition start :: "world \<Rightarrow> run_state" where
  "start w = \<lparr>states = Map.empty, xcom = Map.empty, executed = [], world_of = w\<rparr>"

definition run_dag ::
  "'d externals \<Rightarrow> env \<Rightarrow> string \<Rightarrow> string \<Rightarrow> 'd \<Rightarrow> dag \<Rightarrow> world \<Rightarrow> run_state" where
  "run_dag ext ev utcnow dag_run_id start_date g w =
     fold (\<lambda>_. scheduler_step ext ev utcnow dag_run_id start_date g) (tasks g) (start w)"

text \<open>
  The order the specification gives, written out for comparison with the scheduler: the
  tasks of a list one after the other; when one fails, the rest are not run.
\<close>

fun run_in_order ::
  "'d externals \<Rightarrow> env \<Rightarrow> string \<Rightarrow> string \<Rightarrow> 'd \<Rightarrow> operator list \<Rightarrow> run_state \<Rightarrow> run_state" where
  "run_in_order ext ev utcnow dag_run_id start_date [] rs = rs"
| "run_in_order ext ev utcnow dag_run_id start_date (t # ts) rs =
     (let rs' = run_task ext ev utcnow dag_run_id start_date t rs in
      if states rs' (task_id t) = Some Success
      then run_in_order ext ev utcnow dag_run_id start_date ts rs'
      else fold skip_task ts rs')"

definition chain :: "env \<Rightarrow> operator list" where
  "chain ev = [task_load_files_into_db, task_validate_source_data_load, task_dbt ev,
               task_validate_analytical_output, task_publish]"

subsection \<open>Forms used in the proofs\<close>

text \<open>
  The catalogue after a cascading drop, after the two drops of the Loader, and the tables
  the Loader writes; the lemmas below relate them to the definitions above.
\<close>

definition drop_cascade :: "string \<Rightarrow> database \<Rightarrow> database" where
  "drop_cascade name d =
     (\<lambda>n. if n = name then None
          else map_option (forget_objects (case d name of None \<Rightarrow> [] | Some t \<Rightarrow> dependents t)) (d n))"

definition dropped :: "database \<Rightarrow> database" where
  "dropped d = drop_cascade ''state_abbreviations'' (drop_cascade ''npi_small'' d)"

definition npi_table :: "(string \<Rightarrow> string) \<Rightarrow> dataframe \<Rightarrow> table" where
  "npi_table lower df =
     frame_table (rename_columns (column_rename_dict lower (columns df)) df) False"

definition state_table :: "dataframe \<Rightarrow> table" where
  "state_table df = frame_table df False"

definition loader_drops :: "event list" where
  "loader_drops = [Execute (DropTableIfExists ''npi_small'' True),
                   Execute (DropTableIfExists ''state_abbreviations'' True)]"

text \<open>The catalogue a connected Loader leaves, whether it returns or raises.\<close>

definition loaded_db ::
  "(string \<Rightarrow> string) \<Rightarrow> env \<Rightarrow> (string \<rightharpoonup> parsed) \<Rightarrow> database \<Rightarrow> database" where
  "loaded_db lower ev fs d =
     (case os_path_join (GE_TUTORIAL_PROJECT_PATH ev) ''data/npi_small.csv'' of
        Inl e \<Rightarrow> dropped d
      | Inr p1 \<Rightarrow>
         (case fs p1 of
            None \<Rightarrow> dropped d
          | Some csv1 \<Rightarrow>
             (case os_path_join (GE_TUTORIAL_PROJECT_PATH ev) ''data/state_abbreviations.csv'' of
                Inl e \<Rightarrow> (dropped d)(''npi_small'' \<mapsto> npi_table lower (frame_of csv1))
              | Inr p2 \<Rightarrow>
                 (case fs p2 of
                    None \<Rightarrow> (dropped d)(''npi_small'' \<mapsto> npi_table lower (frame_of csv1))
                  | Some csv2 \<Rightarrow>
                      (dropped d)(''npi_small'' \<mapsto> npi_table lower (frame_of csv1),
                                  ''state_abbreviations'' \<mapsto> state_table (frame_of csv2))))))"

subsection \<open>Concrete inputs\<close>

text \<open>
  \<open>str.lower\<close> on text in ASCII, where it changes the letters A to Z only. The labels of
  the concrete inputs below are in ASCII, so on them it is Python's function.
\<close>

definition ascii_lower_char :: "char \<Rightarrow> char" where
  "ascii_lower_char c =
     (case map_of (zip ''ABCDEFGHIJKLMNOPQRSTUVWXYZ'' ''abcdefghijklmnopqrstuvwxyz'') c of
        None \<Rightarrow> c
      | Some l \<Rightarrow> l)"

definition ascii_lower :: "string \<Rightarrow> string" where
  "ascii_lower s = map ascii_lower_char s"

definition example_env :: env where
  "example_env = \<lparr>GE_TUTORIAL_DB_URL = Some ''postgresql://warehouse'',
                   GE_TUTORIAL_PROJECT_PATH = Some ''/project''\<rparr>"

text \<open>\<^verbatim>\<open>NPI,Name\<close> / \<^verbatim>\<open>123,Acme\<close>, as \<open>pd.read_csv\<close> reads it.\<close>

definition example_npi :: dataframe where
  "example_npi = \<lparr>columns = [''NPI'', ''Name''], index = [IntCell 0],
                   rows = [[IntCell 123, StrCell ''Acme'']]\<rparr>"

definition example_states :: dataframe where
  "example_states = \<lparr>columns = [''name'', ''abbreviation''], index = [IntCell 0],
                      rows = [[StrCell ''Alabama'', StrCell ''AL'']]\<rparr>"

text \<open>A database that holds both source tables from an earlier run, each with a view on it.\<close>

definition example_world :: world where
  "example_world =
     \<lparr>reachable = True,
      db = [''npi_small'' \<mapsto> \<lparr>col_names = [''npi''], tuples = [], dependents = [''npi_view'']\<rparr>,
            ''state_abbreviations'' \<mapsto>
              \<lparr>col_names = [''name''], tuples = [], dependents = [''state_view'']\<rparr>],
      files = [''/project/data/npi_small.csv'' \<mapsto> Parsed example_npi,
               ''/project/data/state_abbreviations.csv'' \<mapsto> Parsed example_states],
      trace = []\<rparr>"

text \<open>The header \<^verbatim>\<open>NPI,npi\<close>, whose two names differ in case only, with one row.\<close>

definition colliding_npi :: dataframe where
  "colliding_npi = \<lparr>columns = [''NPI'', ''npi''], index = [IntCell 0],
                     rows = [[IntCell 123, IntCell 456]]\<rparr>"

definition colliding_world :: world where
  "colliding_world =
     example_world\<lparr>files := (files example_world)(''/project/data/npi_small.csv'' \<mapsto> Parsed colliding_npi)\<rparr>"

text \<open>The second CSV file is missing.\<close>

definition missing_states_world :: world where
  "missing_states_world =
     example_world\<lparr>files := [''/project/data/npi_small.csv'' \<mapsto> Parsed example_npi]\<rparr>"

definition new_counts :: table where
  "new_counts = \<lparr>col_names = [''state'', ''count''], tuples = [[StrCell ''AL'', IntCell 7]],
                  dependents = []\<rparr>"

definition old_counts :: table where
  "old_counts = \<lparr>col_names = [''state'', ''count''], tuples = [[StrCell ''AL'', IntCell 5]],
                  dependents = []\<rparr>"

definition publish_world :: world where
  "publish_world =
     \<lparr>reachable = True,
      db = [''count_providers_by_state'' \<mapsto> new_counts,
            ''prod_count_providers_by_state'' \<mapsto> old_counts],
      files = Map.empty,
      trace = []\<rparr>"

text \<open>The production table has a view on it.\<close>

definition blocked_world :: world where
  "blocked_world =
     publish_world\<lparr>db := [''count_providers_by_state'' \<mapsto> new_counts,
                           ''prod_count_providers_by_state'' \<mapsto>
                              old_counts\<lparr>dependents := [''report_view'']\<rparr>]\<rparr>"

text \<open>
  A validation engine that answers with the given flag, timestamps that are already
  strings, \<open>str.lower\<close> on ASCII, and a shell in which every command but the empty one
  writes the derived table.
\<close>

definition example_ext :: "bool \<Rightarrow> string externals" where
  "example_ext flag =
     \<lparr>data_context = (\<lambda>w. Inr ()),
      get_batch = (\<lambda>kw suite d. Inr \<lparr>batch_kwargs = kw, expectation_suite_name = suite\<rparr>),
      run_validation_operator = (\<lambda>name assets run_id d. Inr [''success'' \<mapsto> PyBool flag]),
      str_of = (\<lambda>s. s),
      str_lower = ascii_lower,
      shell = (\<lambda>command d. if command = [] then (0, d)
                             else (0, d(''count_providers_by_state'' \<mapsto> new_counts)))\<rparr>"

definition example_kwargs :: "string \<rightharpoonup> string kwarg" where
  "example_kwargs = [''dag_run'' \<mapsto> DagRun ''manual__2020-01-01'' ''2020-01-01 00:00:00+00:00'']"

section \<open>The database statements\<close>

lemma forget_objects_Nil: "forget_objects [] t = t"
  by (simp add: forget_objects_def)

lemma map_option_forget_Nil: "map_option (forget_objects []) x = x"
  by (cases x) (simp_all add: forget_objects_Nil)

lemma drop_table_cascade: "drop_table name True d = Inr (drop_cascade name d)"
  by (auto simp: drop_table_def drop_cascade_def map_option_forget_Nil split: option.splits)

lemma drop_cascade_absent: "d name = None \<Longrightarrow> drop_cascade name d = d"
  by (auto simp: drop_cascade_def map_option_forget_Nil)

lemma drop_cascade_fresh:
  "d name = None \<Longrightarrow> dependents t = [] \<Longrightarrow> drop_cascade name (d(name \<mapsto> t)) = d"
  by (auto simp: drop_cascade_def map_option_forget_Nil)

lemma drop_cascade_self: "drop_cascade name d name = None"
  by (simp add: drop_cascade_def)

lemma drop_cascade_other_absent: "d n = None \<Longrightarrow> drop_cascade name d n = None"
  by (simp add: drop_cascade_def)

text \<open>A cascading drop leaves no table that lists an object of the dropped one.\<close>

lemma drop_cascade_forgets:
  "drop_cascade name d n = Some t \<Longrightarrow> d name = Some t0 \<Longrightarrow> obj \<in> set (dependents t0) \<Longrightarrow>
   obj \<notin> set (dependents t)"
  by (auto simp: drop_cascade_def forget_objects_def split: if_splits)

lemma drop_cascade_keeps:
  assumes "drop_cascade name d n = Some t"
  shows "\<exists>t1. d n = Some t1 \<and> set (dependents t) \<subseteq> set (dependents t1) \<and>
        (\<forall>obj. obj \<in> set (dependents t1) \<longrightarrow> obj \<notin> set (dependents t) \<longrightarrow>
           (\<exists>t0. d name = Some t0 \<and> obj \<in> set (dependents t0)))"
proof (cases "d name")
  case None
  with assms show ?thesis
    by (auto simp: drop_cascade_def forget_objects_def split: if_splits)
next
  case (Some t0)
  with assms show ?thesis
    by (auto simp: drop_cascade_def forget_objects_def split: if_splits)
qed

lemma drop_table_plain: "drop_table name False d = Inr d' \<Longrightarrow> d' = d(name := None)"
  by (auto simp: drop_table_def map_option_forget_Nil fun_eq_iff split: option.splits if_splits)

lemma drop_table_blocked:
  "d name = Some t \<Longrightarrow> dependents t \<noteq> [] \<Longrightarrow>
   drop_table name False d =
     Inl (ProgrammingError ''cannot drop table because other objects depend on it'')"
  by (simp add: drop_table_def)

lemma dropped_absent: "dropped d ''npi_small'' = None" "dropped d ''state_abbreviations'' = None"
  by (simp_all add: dropped_def drop_cascade_def)

lemma dropped_dropped: "dropped (dropped d) = dropped d"
  by (simp add: dropped_def drop_cascade_absent drop_cascade_self drop_cascade_other_absent)

text \<open>What \<open>to_sql\<close> writes: a table without dependents; for a frame whose labels are
  pairwise distinct and whose rows have one cell for each label, the frame as it is.\<close>

lemma dependents_frame_table: "dependents (frame_table df with_index) = []"
  by (simp add: frame_table_def Let_def)

lemma dependents_written:
  "dependents (npi_table lower df) = []" "dependents (state_table df) = []"
  by (simp_all add: npi_table_def state_table_def dependents_frame_table)

lemma sql_columns_distinct: "distinct labels \<Longrightarrow> sql_columns labels = labels"
  by (simp add: sql_columns_def distinct_remdups_id)

lemma map_of_rev_distinct: "distinct (map fst xs) \<Longrightarrow> map_of (rev xs) = map_of xs"
proof (induction xs)
  case Nil
  then show ?case by simp
next
  case (Cons x xs)
  obtain k v where x: "x = (k, v)" by (cases x)
  from Cons.prems x have k: "k \<notin> fst ` set xs" by simp
  then have "map_of xs k = None" by (simp add: map_of_eq_None_iff)
  with Cons x show ?case
    by (auto simp: map_add_def fun_eq_iff split: option.splits)
qed

lemma lookup_zip:
  "distinct labels \<Longrightarrow> length r = length labels \<Longrightarrow>
   map (\<lambda>c. case map_of (zip labels r) c of None \<Rightarrow> NaN | Some v \<Rightarrow> v) labels = r"
proof (induction labels arbitrary: r)
  case Nil
  then show ?case by simp
next
  case (Cons l labels)
  then obtain x r' where r: "r = x # r'" by (cases r) auto
  with Cons.prems have d: "l \<notin> set labels" "distinct labels" "length r' = length labels"
    by auto
  have "map (\<lambda>c. case map_of (zip (l # labels) (x # r')) c of None \<Rightarrow> NaN | Some v \<Rightarrow> v) labels =
        map (\<lambda>c. case map_of (zip labels r') c of None \<Rightarrow> NaN | Some v \<Rightarrow> v) labels"
    using d(1) by (intro map_cong) auto
  with Cons.IH[OF d(2,3)] r show ?case by simp
qed

lemma sql_row_distinct:
  assumes "distinct labels" and "length r = length labels"
  shows "sql_row labels r = r"
proof -
  have "distinct (map fst (zip labels r))"
    using assms by (simp add: map_fst_zip)
  then have "map_of (rev (zip labels r)) = map_of (zip labels r)"
    by (rule map_of_rev_distinct)
  with assms show ?thesis
    by (simp add: sql_row_def sql_columns_distinct lookup_zip)
qed

lemma frame_table_distinct:
  assumes "distinct (columns df)" and "list_all (\<lambda>r. length r = length (columns df)) (rows df)"
  shows "frame_table df False = \<lparr>col_names = columns df, tuples = rows df, dependents = []\<rparr>"
proof -
  have "map (sql_row (columns df)) (rows df) = rows df"
    using assms by (simp add: list_all_iff sql_row_distinct cong: map_cong)
  with assms(1) show ?thesis
    by (simp add: frame_table_def sql_columns_distinct)
qed

lemma parsed_frame:
  "distinct (columns (frame_of csv))"
  "list_all (\<lambda>r. length r = length (columns (frame_of csv))) (rows (frame_of csv))"
  using frame_of[of csv] by simp_all


lemma dropped_npi: "dropped ((dropped d)(''npi_small'' \<mapsto> npi_table lower df)) = dropped d"
proof -
  have "drop_cascade ''npi_small'' ((dropped d)(''npi_small'' \<mapsto> npi_table lower df)) = dropped d"
    by (rule drop_cascade_fresh) (simp_all add: dropped_absent dependents_written)
  then show ?thesis
    by (simp add: dropped_def[of "(dropped d)(''npi_small'' \<mapsto> npi_table lower df)"]
          drop_cascade_absent dropped_absent)
qed

lemma dropped_both:
  "dropped ((dropped d)(''npi_small'' \<mapsto> npi_table lower df1,
                         ''state_abbreviations'' \<mapsto> state_table df2))
     = dropped d"
proof -
  let ?d1 = "(dropped d)(''state_abbreviations'' \<mapsto> state_table df2)"
  have sw: "(dropped d)(''npi_small'' \<mapsto> npi_table lower df1,
                        ''state_abbreviations'' \<mapsto> state_table df2)
          = ?d1(''npi_small'' \<mapsto> npi_table lower df1)"
    by (rule fun_upd_twist) simp
  have "drop_cascade ''npi_small'' (?d1(''npi_small'' \<mapsto> npi_table lower df1)) = ?d1"
    by (rule drop_cascade_fresh) (simp_all add: dropped_absent dependents_written)
  moreover have "drop_cascade ''state_abbreviations'' ?d1 = dropped d"
    by (rule drop_cascade_fresh) (simp_all add: dropped_absent dependents_written)
  ultimately show ?thesis
    by (simp add: sw dropped_def[of "?d1(''npi_small'' \<mapsto> npi_table lower df1)"])
qed

text \<open>After both drops no table lists an object of either source table.\<close>

lemma dropped_forgets:
  assumes "dropped d n = Some t"
    and "d ''npi_small'' = Some t0 \<or> d ''state_abbreviations'' = Some t0"
    and "obj \<in> set (dependents t0)"
  shows "obj \<notin> set (dependents t)"
proof -
  let ?d1 = "drop_cascade ''npi_small'' d"
  from assms(1) have a: "drop_cascade ''state_abbreviations'' ?d1 n = Some t"
    by (simp add: dropped_def)
  from drop_cascade_keeps[OF a] obtain t1 where
    t1: "?d1 n = Some t1" "set (dependents t) \<subseteq> set (dependents t1)" by blast
  from assms(2) show ?thesis
  proof
    assume "d ''npi_small'' = Some t0"
    from drop_cascade_forgets[OF t1(1) this assms(3)] t1(2) show ?thesis by blast
  next
    assume s: "d ''state_abbreviations'' = Some t0"
    show ?thesis
    proof (cases "?d1 ''state_abbreviations''")
      case None
      with s show ?thesis by (simp add: drop_cascade_def)
    next
      case (Some t0')
      from drop_cascade_keeps[OF Some] s
      have k: "\<forall>obj. obj \<in> set (dependents t0) \<longrightarrow> obj \<notin> set (dependents t0') \<longrightarrow>
                 (\<exists>tn. d ''npi_small'' = Some tn \<and> obj \<in> set (dependents tn))"
        by auto
      show ?thesis
      proof (cases "obj \<in> set (dependents t0')")
        case True
        from drop_cascade_forgets[OF a Some True] show ?thesis .
      next
        case False
        with k assms(3) obtain tn where "d ''npi_small'' = Some tn" "obj \<in> set (dependents tn)"
          by blast
        from drop_cascade_forgets[OF t1(1) this] t1(2) show ?thesis by blast
      qed
    qed
  qed
qed

section \<open>The Loader\<close>

lemma rename_dict_apply:
  "map (\<lambda>c. case column_rename_dict lower cols c of None \<Rightarrow> c | Some c' \<Rightarrow> c') cols =
     map lower cols"
proof -
  have "\<And>c. c \<in> set cols \<Longrightarrow> column_rename_dict lower cols c = Some (lower c)"
    unfolding column_rename_dict_def
    by (induction cols) auto
  then show ?thesis by (simp cong: map_cong)
qed

lemma renamed_frame:
  "rename_columns (column_rename_dict lower (columns df)) df = df\<lparr>columns := map lower (columns df)\<rparr>"
  by (simp add: rename_columns_def rename_dict_apply)

text \<open>The table of \<open>npi_small\<close> when the lower-cased labels are pairwise distinct.\<close>

lemma npi_table_distinct:
  assumes "distinct (map lower (columns (frame_of csv)))"
  shows "npi_table lower (frame_of csv) =
           \<lparr>col_names = map lower (columns (frame_of csv)), tuples = rows (frame_of csv),
             dependents = []\<rparr>"
  using assms parsed_frame(2)[of csv]
  by (simp add: npi_table_def renamed_frame frame_table_distinct)

lemma store_npi:
  "d ''npi_small'' = None \<Longrightarrow>
   store_frame (rename_columns (column_rename_dict lower (columns df)) df) ''npi_small'' Replace False d =
     Inr (d(''npi_small'' \<mapsto> npi_table lower df))"
  by (simp add: store_frame_def npi_table_def)

lemma store_state:
  "d ''state_abbreviations'' = None \<Longrightarrow>
   store_frame df ''state_abbreviations'' Replace False d =
     Inr (d(''state_abbreviations'' \<mapsto> state_table df))"
  by (simp add: store_frame_def state_table_def)

lemma os_path_join_error: "os_path_join a b = Inl e \<Longrightarrow> e = TypeError"
  by (auto simp: os_path_join_def split: option.splits if_splits)

text \<open>
  The Loader, once connected, written out: the two drops always succeed, so what is left
  to decide is whether each path can be built, each file read and each frame stored.
\<close>

lemma load_connected:
  assumes "GE_TUTORIAL_DB_URL ev = Some u" "reachable w"
  shows "load_files_into_db lower ev kwargs w =
    (let w2 = w\<lparr>db := dropped (db w), trace := trace w @ loader_drops\<rparr> in
     case os_path_join (GE_TUTORIAL_PROJECT_PATH ev) ''data/npi_small.csv'' of
       Inl e \<Rightarrow> (Inl e, w2)
     | Inr p1 \<Rightarrow>
      (case files w p1 of
         None \<Rightarrow> (Inl (FileNotFoundError p1), w2\<lparr>trace := trace w @ loader_drops @ [ReadCsv p1]\<rparr>)
       | Some csv1 \<Rightarrow>
           (let d4 = (dropped (db w))(''npi_small'' \<mapsto> npi_table lower (frame_of csv1)) in
            case os_path_join (GE_TUTORIAL_PROJECT_PATH ev) ''data/state_abbreviations.csv'' of
              Inl e \<Rightarrow>
                (Inl e, w\<lparr>db := d4,
                          trace := trace w @ loader_drops @ [ReadCsv p1, ToSql ''npi_small'']\<rparr>)
            | Inr p2 \<Rightarrow>
              (case files w p2 of
                 None \<Rightarrow> (Inl (FileNotFoundError p2),
                    w\<lparr>db := d4,
                      trace := trace w @ loader_drops @
                        [ReadCsv p1, ToSql ''npi_small'', ReadCsv p2]\<rparr>)
               | Some csv2 \<Rightarrow>
                  (Inr ''Loaded files into the database'',
                    w\<lparr>db := d4(''state_abbreviations'' \<mapsto> state_table (frame_of csv2)),
                      trace := trace w @ loader_drops @
                        [ReadCsv p1, ToSql ''npi_small'', ReadCsv p2, ToSql ''state_abbreviations'']\<rparr>)))))"
  using assms
  by (simp add: load_files_into_db_def create_engine_def connect_def conn_execute_def
        drop_table_cascade issue_def read_csv_def to_sql_def store_npi store_state dropped_absent
        dropped_def[symmetric] loader_drops_def Let_def
      split: sum.splits option.splits)

lemma load_unconnected:
  "GE_TUTORIAL_DB_URL ev = None \<or> \<not> reachable w \<Longrightarrow> snd (load_files_into_db lower ev kwargs w) = w"
  by (auto simp: load_files_into_db_def create_engine_def connect_def split: option.splits)

lemma load_db:
  assumes "GE_TUTORIAL_DB_URL ev = Some u" "reachable w"
  shows "db (snd (load_files_into_db lower ev kwargs w)) = loaded_db lower ev (files w) (db w)"
  by (simp add: load_connected[OF assms] loaded_db_def Let_def split: sum.splits option.splits)

lemma load_files_unchanged: "files (snd (load_files_into_db lower ev kwargs w)) = files w"
proof (cases "GE_TUTORIAL_DB_URL ev = None \<or> \<not> reachable w")
  case True
  then show ?thesis by (simp add: load_unconnected)
next
  case False
  then obtain u where "GE_TUTORIAL_DB_URL ev = Some u" "reachable w" by auto
  then show ?thesis
    by (simp add: load_connected Let_def split: sum.splits option.splits)
qed

lemma load_reachable_unchanged: "reachable (snd (load_files_into_db lower ev kwargs w)) = reachable w"
proof (cases "GE_TUTORIAL_DB_URL ev = None \<or> \<not> reachable w")
  case True
  then show ?thesis by (simp add: load_unconnected)
next
  case False
  then obtain u where "GE_TUTORIAL_DB_URL ev = Some u" "reachable w" by auto
  then show ?thesis
    by (simp add: load_connected Let_def split: sum.splits option.splits)
qed

lemma loaded_db_idem: "loaded_db lower ev fs (loaded_db lower ev fs d) = loaded_db lower ev fs d"
  by (simp add: loaded_db_def dropped_dropped dropped_npi dropped_both
      split: sum.splits option.splits)

lemma example_connection:
  "GE_TUTORIAL_DB_URL example_env = Some ''postgresql://warehouse''"
  "reachable example_world" "reachable colliding_world" "reachable missing_states_world"
  "reachable publish_world" "reachable blocked_world"
  by (simp_all add: example_env_def example_world_def colliding_world_def
      missing_states_world_def publish_world_def blocked_world_def)

lemma example_paths:
  "os_path_join (GE_TUTORIAL_PROJECT_PATH example_env) ''data/npi_small.csv'' =
     Inr ''/project/data/npi_small.csv''"
  "os_path_join (GE_TUTORIAL_PROJECT_PATH example_env) ''data/state_abbreviations.csv'' =
     Inr ''/project/data/state_abbreviations.csv''"
  by (simp_all add: os_path_join_def example_env_def)

lemma example_files:
  "files example_world ''/project/data/npi_small.csv'' = Some (Parsed example_npi)"
  "files example_world ''/project/data/state_abbreviations.csv'' = Some (Parsed example_states)"
  "files colliding_world ''/project/data/npi_small.csv'' = Some (Parsed colliding_npi)"
  "files colliding_world ''/project/data/state_abbreviations.csv'' = Some (Parsed example_states)"
  "files missing_states_world ''/project/data/npi_small.csv'' = Some (Parsed example_npi)"
  "files missing_states_world ''/project/data/state_abbreviations.csv'' = None"
  by (simp_all add: example_world_def colliding_world_def missing_states_world_def)

text \<open>The three frames are frames \<open>pd.read_csv\<close> can return.\<close>

lemma example_frames:
  "frame_of (Parsed example_npi) = example_npi"
  "frame_of (Parsed example_states) = example_states"
  "frame_of (Parsed colliding_npi) = colliding_npi"
  by (simp_all add: Parsed_inverse example_npi_def example_states_def colliding_npi_def)

lemma example_headers:
  "map ascii_lower (columns example_npi) = [''npi'', ''name'']"
  "map ascii_lower (columns colliding_npi) = [''npi'', ''npi'']"
  "columns example_states = [''name'', ''abbreviation'']"
  by (simp_all add: example_npi_def colliding_npi_def example_states_def ascii_lower_def
      ascii_lower_char_def)

lemma example_npi_table:
  "npi_table ascii_lower example_npi =
     \<lparr>col_names = [''npi'', ''name''], tuples = [[IntCell 123, StrCell ''Acme'']],
       dependents = []\<rparr>"
proof -
  have "distinct (map ascii_lower (columns (frame_of (Parsed example_npi))))"
    by (simp add: example_frames example_headers)
  from npi_table_distinct[OF this] show ?thesis
    by (simp add: example_frames example_headers) (simp add: example_npi_def)
qed

text \<open>
  C6. Running the Loader twice in succession, with the CSV files, the environment and the
  reachability of the server unchanged, leaves exactly the tables (and dependent objects)
  that one run leaves. This holds for every outcome of the first run, also when it raises:
  the second run drops what the first one created and creates it again.
\<close>

theorem load_files_into_db_idempotent:
  "db (snd (load_files_into_db lower ev kwargs' (snd (load_files_into_db lower ev kwargs w)))) =
   db (snd (load_files_into_db lower ev kwargs w))"
proof (cases "GE_TUTORIAL_DB_URL ev = None \<or> \<not> reachable w")
  case True
  then show ?thesis by (simp add: load_unconnected)
next
  case False
  then obtain u where c: "GE_TUTORIAL_DB_URL ev = Some u" "reachable w" by auto
  let ?w' = "snd (load_files_into_db lower ev kwargs w)"
  have r: "reachable ?w'" using c by (simp add: load_reachable_unchanged)
  show ?thesis
    by (simp add: load_db[OF c(1) r] load_db[OF c] load_files_unchanged loaded_db_idem)
qed

theorem load_files_into_db_idempotent_witness:
  "db (snd (load_files_into_db ascii_lower example_env (Map.empty :: string \<rightharpoonup> unit kwarg)
         (snd (load_files_into_db ascii_lower example_env (Map.empty :: string \<rightharpoonup> unit kwarg)
                 example_world))))
     ''npi_small'' =
   Some \<lparr>col_names = [''npi'', ''name''], tuples = [[IntCell 123, StrCell ''Acme'']], dependents = []\<rparr>"
proof -
  have "db (snd (load_files_into_db ascii_lower example_env (Map.empty :: string \<rightharpoonup> unit kwarg)
                   example_world))
          ''npi_small'' =
        Some \<lparr>col_names = [''npi'', ''name''], tuples = [[IntCell 123, StrCell ''Acme'']],
              dependents = []\<rparr>"
    by (simp add: load_connected[OF example_connection(1,2)] example_paths example_files
          example_frames example_npi_table Let_def)
  then show ?thesis
    by (simp add: load_files_into_db_idempotent)
qed




text \<open>
  C9. The Loader issues both cascading drops before it reads a file. So whenever it
  raises because a CSV file cannot be read, both drops have been issued before the first
  read; no table \<open>state_abbreviations\<close> exists; \<open>npi_small\<close> either does not exist
  or is the table just written from the first CSV file (never the earlier one); and no
  remaining table lists an object that depended on either earlier table. Nothing is put back.
\<close>

theorem load_files_into_db_read_failure:
  assumes "load_files_into_db lower ev kwargs w = (Inl (FileNotFoundError p), w')"
  shows "(\<exists>p1 rest. trace w' = trace w @
            [Execute (DropTableIfExists ''npi_small'' True),
             Execute (DropTableIfExists ''state_abbreviations'' True), ReadCsv p1] @ rest) \<and>
         db w' ''state_abbreviations'' = None \<and>
         (db w' ''npi_small'' = None \<or>
          (\<exists>p1 csv. files w p1 = Some csv \<and>
             db w' ''npi_small'' =
               Some (frame_table
                       (rename_columns (column_rename_dict lower (columns (frame_of csv)))
                          (frame_of csv)) False) \<and>
             (distinct (map lower (columns (frame_of csv))) \<longrightarrow>
                db w' ''npi_small'' =
                  Some \<lparr>col_names = map lower (columns (frame_of csv)),
                        tuples = rows (frame_of csv), dependents = []\<rparr>))) \<and>
         (\<forall>n t t0 obj. db w' n = Some t \<longrightarrow>
            (db w ''npi_small'' = Some t0 \<or> db w ''state_abbreviations'' = Some t0) \<longrightarrow>
            obj \<in> set (dependents t0) \<longrightarrow> obj \<notin> set (dependents t))"
proof -
  from assms obtain u where c: "GE_TUTORIAL_DB_URL ev = Some u" "reachable w"
    by (auto simp: load_files_into_db_def create_engine_def connect_def
        split: option.splits if_splits)
  from assms[unfolded load_connected[OF c] Let_def]
  consider
    (first) p1 where "os_path_join (GE_TUTORIAL_PROJECT_PATH ev) ''data/npi_small.csv'' = Inr p1"
      "files w p1 = None"
      "w' = w\<lparr>db := dropped (db w), trace := trace w @ loader_drops @ [ReadCsv p1]\<rparr>"
  | (second) p1 csv1 p2 where "files w p1 = Some csv1"
      "w' = w\<lparr>db := (dropped (db w))(''npi_small'' \<mapsto> npi_table lower (frame_of csv1)),
              trace := trace w @ loader_drops @ [ReadCsv p1, ToSql ''npi_small'', ReadCsv p2]\<rparr>"
    by (auto split: sum.splits option.splits if_splits dest: os_path_join_error)
  then show ?thesis
  proof cases
    case first
    then show ?thesis
      using dropped_forgets[of "db w"]
      by (auto simp: loader_drops_def dropped_absent)
  next
    case second
    have f: "\<And>n t t0 obj.
            ((dropped (db w))(''npi_small'' \<mapsto> npi_table lower (frame_of csv1))) n = Some t \<Longrightarrow>
            db w ''npi_small'' = Some t0 \<or> db w ''state_abbreviations'' = Some t0 \<Longrightarrow>
            obj \<in> set (dependents t0) \<Longrightarrow> obj \<notin> set (dependents t)"
      using dropped_forgets[of "db w"]
      by (auto simp: dependents_written split: if_splits)
    have t: "\<exists>p1 csv. files w p1 = Some csv \<and>
               npi_table lower (frame_of csv1) =
                 frame_table
                   (rename_columns (column_rename_dict lower (columns (frame_of csv)))
                      (frame_of csv)) False \<and>
               (distinct (map lower (columns (frame_of csv))) \<longrightarrow>
                  npi_table lower (frame_of csv1) =
                    \<lparr>col_names = map lower (columns (frame_of csv)),
                      tuples = rows (frame_of csv), dependents = []\<rparr>)"
      using second(1) npi_table_distinct[of lower csv1]
      by (intro exI[of _ p1] exI[of _ csv1]) (simp add: npi_table_def)
    from second f t show ?thesis
      by (auto simp: loader_drops_def dropped_absent)
  qed
qed

theorem load_files_into_db_read_failure_witness:
  "load_files_into_db ascii_lower example_env (Map.empty :: string \<rightharpoonup> unit kwarg)
     missing_states_world =
     (Inl (FileNotFoundError ''/project/data/state_abbreviations.csv''),
      snd (load_files_into_db ascii_lower example_env (Map.empty :: string \<rightharpoonup> unit kwarg)
             missing_states_world)) \<and>
   db (snd (load_files_into_db ascii_lower example_env (Map.empty :: string \<rightharpoonup> unit kwarg)
              missing_states_world))
     ''state_abbreviations'' = None"
proof -
  have h: "load_files_into_db ascii_lower example_env (Map.empty :: string \<rightharpoonup> unit kwarg)
             missing_states_world =
     (Inl (FileNotFoundError ''/project/data/state_abbreviations.csv''),
      snd (load_files_into_db ascii_lower example_env (Map.empty :: string \<rightharpoonup> unit kwarg)
             missing_states_world))"
    by (simp add: load_connected[OF example_connection(1,4)] Let_def example_paths example_files)
  from load_files_into_db_read_failure[OF h] h show ?thesis by simp
qed

section \<open>The Publisher\<close>

text \<open>
  C2. Whenever the Publisher completes, the table that was named
  \<open>count_providers_by_state\<close> is the one (the catalogue holds one table per name) named
  \<open>prod_count_providers_by_state\<close>, with its columns, rows and dependent objects; no table
  named \<open>count_providers_by_state\<close> remains; every other table is as it was; and the two
  statements issued are the drop of the production name, then the rename.
\<close>

theorem publish_to_prod_renames:
  assumes "publish_to_prod ev w = (Inr (), w')"
  shows "(\<exists>t. db w ''count_providers_by_state'' = Some t \<and>
              db w' ''prod_count_providers_by_state'' = Some t) \<and>
         db w' ''count_providers_by_state'' = None \<and>
         (\<forall>n. n \<noteq> ''prod_count_providers_by_state'' \<longrightarrow> n \<noteq> ''count_providers_by_state'' \<longrightarrow>
              db w' n = db w n) \<and>
         trace w' = trace w @
           [Execute (DropTableIfExists ''prod_count_providers_by_state'' False),
            Execute (AlterTableRename ''count_providers_by_state'' ''prod_count_providers_by_state'')]"
  using assms
  by (auto simp: publish_to_prod_def create_engine_def connect_def conn_execute_def issue_def
        rename_table_def
      split: option.splits sum.splits if_splits prod.splits
      dest!: drop_table_plain)

theorem publish_to_prod_renames_witness:
  "publish_to_prod example_env publish_world =
     (Inr (), snd (publish_to_prod example_env publish_world)) \<and>
   db (snd (publish_to_prod example_env publish_world)) ''prod_count_providers_by_state'' =
     Some new_counts \<and>
   db (snd (publish_to_prod example_env publish_world)) ''count_providers_by_state'' = None"
proof -
  have h: "publish_to_prod example_env publish_world =
             (Inr (), snd (publish_to_prod example_env publish_world))"
    by (simp add: publish_to_prod_def create_engine_def connect_def conn_execute_def issue_def
          drop_table_def rename_table_def example_env_def publish_world_def old_counts_def)
  from publish_to_prod_renames[OF h] h show ?thesis
    by (simp add: publish_world_def)
qed

text \<open>
  C10. The Publisher's drop carries no \<open>cascade\<close>, while both drops of the Loader do. So
  when the production table exists and other objects depend on it, the Publisher (once
  connected) raises at the drop: that statement is the only one issued, the rename is not
  attempted, and the database, the earlier production table included, is as it was.
\<close>

theorem publish_to_prod_blocked:
  assumes "GE_TUTORIAL_DB_URL ev = Some u" and "reachable w"
    and "db w ''prod_count_providers_by_state'' = Some t" and "dependents t \<noteq> []"
  shows "publish_to_prod ev w =
           (Inl (ProgrammingError ''cannot drop table because other objects depend on it''),
            w\<lparr>trace := trace w @
                 [Execute (DropTableIfExists ''prod_count_providers_by_state'' False)]\<rparr>) \<and>
         take 2 (drop (length (trace w)) (trace (snd (load_files_into_db lower ev kwargs w)))) =
           [Execute (DropTableIfExists ''npi_small'' True),
            Execute (DropTableIfExists ''state_abbreviations'' True)]"
proof
  show "publish_to_prod ev w =
           (Inl (ProgrammingError ''cannot drop table because other objects depend on it''),
            w\<lparr>trace := trace w @
                 [Execute (DropTableIfExists ''prod_count_providers_by_state'' False)]\<rparr>)"
    using assms
    by (simp add: publish_to_prod_def create_engine_def connect_def conn_execute_def issue_def
          drop_table_blocked)
  show "take 2 (drop (length (trace w)) (trace (snd (load_files_into_db lower ev kwargs w)))) =
           [Execute (DropTableIfExists ''npi_small'' True),
            Execute (DropTableIfExists ''state_abbreviations'' True)]"
    by (simp add: load_connected[OF assms(1,2)] Let_def loader_drops_def
        split: sum.splits option.splits)
qed

theorem publish_to_prod_blocked_witness:
  "fst (publish_to_prod example_env blocked_world) =
     Inl (ProgrammingError ''cannot drop table because other objects depend on it'') \<and>
   db (snd (publish_to_prod example_env blocked_world)) ''prod_count_providers_by_state'' =
     Some (old_counts\<lparr>dependents := [''report_view'']\<rparr>) \<and>
   db (snd (publish_to_prod example_env blocked_world)) ''count_providers_by_state'' =
     Some new_counts"
proof -
  have t: "db blocked_world ''prod_count_providers_by_state'' =
             Some (old_counts\<lparr>dependents := [''report_view'']\<rparr>)"
    by (simp add: blocked_world_def)
  have d: "dependents (old_counts\<lparr>dependents := [''report_view'']\<rparr>) \<noteq> []"
    by simp
  from publish_to_prod_blocked[where kwargs="Map.empty :: string \<rightharpoonup> unit kwarg"
      and lower=ascii_lower, OF example_connection(1,6) t d]
  show ?thesis
    by (simp add: blocked_world_def)
qed

section \<open>The scheduler, the gate and the chain\<close>

lemma task_ids:
  "task_id task_load_files_into_db = ''task_load_files_into_db''"
  "task_id (task_dbt ev) = ''task_dbt''"
  "task_id task_publish = ''task_publish''"
  "task_id task_validate_source_data_load = ''task_validate_source_data_load''"
  "task_id task_validate_analytical_output = ''task_validate_analytical_output''"
  by (simp_all add: task_load_files_into_db_def task_dbt_def task_publish_def
      task_validate_source_data_load_def task_validate_analytical_output_def)

lemma tasks_ge:
  "tasks (ge_tutorials_dag ev) =
     [task_load_files_into_db, task_dbt ev, task_publish,
      task_validate_source_data_load, task_validate_analytical_output]"
  by (simp add: ge_tutorials_dag_def)

lemma edges_ge:
  "edges (ge_tutorials_dag ev) =
     [(''task_load_files_into_db'', ''task_validate_source_data_load''),
      (''task_validate_source_data_load'', ''task_dbt''),
      (''task_dbt'', ''task_validate_analytical_output''),
      (''task_validate_analytical_output'', ''task_publish'')]"
  by (simp add: ge_tutorials_dag_def task_ids)

lemma upstream_ge:
  "upstream_of (ge_tutorials_dag ev) ''task_load_files_into_db'' = []"
  "upstream_of (ge_tutorials_dag ev) ''task_validate_source_data_load'' = [''task_load_files_into_db'']"
  "upstream_of (ge_tutorials_dag ev) ''task_dbt'' = [''task_validate_source_data_load'']"
  "upstream_of (ge_tutorials_dag ev) ''task_validate_analytical_output'' = [''task_dbt'']"
  "upstream_of (ge_tutorials_dag ev) ''task_publish'' = [''task_validate_analytical_output'']"
  by (simp_all add: upstream_of_def edges_ge)

lemma step_1:
  "states rs = Map.empty \<Longrightarrow>
   scheduler_step ext ev u rid sd (ge_tutorials_dag ev) rs =
     run_task ext ev u rid sd task_load_files_into_db rs"
  by (simp add: scheduler_step_def tasks_ge task_ids upstream_ge)

lemma step_2:
  "states rs = [''task_load_files_into_db'' \<mapsto> a] \<Longrightarrow>
   scheduler_step ext ev u rid sd (ge_tutorials_dag ev) rs =
     (if a = Success then run_task ext ev u rid sd task_validate_source_data_load rs
      else skip_task task_validate_source_data_load rs)"
  by (simp add: scheduler_step_def tasks_ge task_ids upstream_ge)

lemma step_3:
  "states rs = [''task_load_files_into_db'' \<mapsto> a, ''task_validate_source_data_load'' \<mapsto> b] \<Longrightarrow>
   scheduler_step ext ev u rid sd (ge_tutorials_dag ev) rs =
     (if b = Success then run_task ext ev u rid sd (task_dbt ev) rs
      else skip_task (task_dbt ev) rs)"
  by (simp add: scheduler_step_def tasks_ge task_ids upstream_ge)

lemma step_4:
  "states rs = [''task_load_files_into_db'' \<mapsto> a, ''task_validate_source_data_load'' \<mapsto> b,
                ''task_dbt'' \<mapsto> c] \<Longrightarrow>
   scheduler_step ext ev u rid sd (ge_tutorials_dag ev) rs =
     (if c = Success then run_task ext ev u rid sd task_validate_analytical_output rs
      else skip_task task_validate_analytical_output rs)"
  by (simp add: scheduler_step_def tasks_ge task_ids upstream_ge)

lemma step_5:
  "states rs = [''task_load_files_into_db'' \<mapsto> a, ''task_validate_source_data_load'' \<mapsto> b,
                ''task_dbt'' \<mapsto> c, ''task_validate_analytical_output'' \<mapsto> d] \<Longrightarrow>
   scheduler_step ext ev u rid sd (ge_tutorials_dag ev) rs =
     (if d = Success then run_task ext ev u rid sd task_publish rs
      else skip_task task_publish rs)"
  by (simp add: scheduler_step_def tasks_ge task_ids upstream_ge)


lemma states_skip_task: "states (skip_task t rs) = (states rs)(task_id t \<mapsto> UpstreamFailed)"
  by (simp add: skip_task_def)

lemma states_run_task:
  "states (run_task ext ev u rid sd t rs) = (states rs)(task_id t \<mapsto> Success) \<or>
   states (run_task ext ev u rid sd t rs) = (states rs)(task_id t \<mapsto> Failed)"
  by (simp add: run_task_def split: prod.splits sum.splits)

lemma skip_from_5:
  assumes "states rs = [''task_load_files_into_db'' \<mapsto> a, ''task_validate_source_data_load'' \<mapsto> b,
                ''task_dbt'' \<mapsto> c, ''task_validate_analytical_output'' \<mapsto> d]"
    and "d \<noteq> Success"
  shows "scheduler_step ext ev u rid sd (ge_tutorials_dag ev) rs = fold skip_task [task_publish] rs"
  using step_5[OF assms(1)] assms(2) by simp

lemma skip_from_4:
  assumes "states rs = [''task_load_files_into_db'' \<mapsto> a, ''task_validate_source_data_load'' \<mapsto> b,
                ''task_dbt'' \<mapsto> c]"
    and "c \<noteq> Success"
  shows "scheduler_step ext ev u rid sd (ge_tutorials_dag ev)
           (scheduler_step ext ev u rid sd (ge_tutorials_dag ev) rs) =
         fold skip_task [task_validate_analytical_output, task_publish] rs"
proof -
  have 1: "scheduler_step ext ev u rid sd (ge_tutorials_dag ev) rs =
             skip_task task_validate_analytical_output rs"
    using step_4[OF assms(1)] assms(2) by simp
  have "states (skip_task task_validate_analytical_output rs) =
          [''task_load_files_into_db'' \<mapsto> a, ''task_validate_source_data_load'' \<mapsto> b,
           ''task_dbt'' \<mapsto> c, ''task_validate_analytical_output'' \<mapsto> UpstreamFailed]"
    by (simp add: states_skip_task task_ids assms(1))
  from skip_from_5[OF this] 1 show ?thesis by simp
qed

lemma skip_from_3:
  assumes "states rs = [''task_load_files_into_db'' \<mapsto> a, ''task_validate_source_data_load'' \<mapsto> b]"
    and "b \<noteq> Success"
  shows "scheduler_step ext ev u rid sd (ge_tutorials_dag ev)
          (scheduler_step ext ev u rid sd (ge_tutorials_dag ev)
            (scheduler_step ext ev u rid sd (ge_tutorials_dag ev) rs)) =
         fold skip_task [task_dbt ev, task_validate_analytical_output, task_publish] rs"
proof -
  have 1: "scheduler_step ext ev u rid sd (ge_tutorials_dag ev) rs = skip_task (task_dbt ev) rs"
    using step_3[OF assms(1)] assms(2) by simp
  have "states (skip_task (task_dbt ev) rs) =
          [''task_load_files_into_db'' \<mapsto> a, ''task_validate_source_data_load'' \<mapsto> b,
           ''task_dbt'' \<mapsto> UpstreamFailed]"
    by (simp add: states_skip_task task_ids assms(1))
  from skip_from_4[OF this] 1 show ?thesis by simp
qed

lemma skip_from_2:
  assumes "states rs = [''task_load_files_into_db'' \<mapsto> a]"
    and "a \<noteq> Success"
  shows "scheduler_step ext ev u rid sd (ge_tutorials_dag ev)
          (scheduler_step ext ev u rid sd (ge_tutorials_dag ev)
            (scheduler_step ext ev u rid sd (ge_tutorials_dag ev)
              (scheduler_step ext ev u rid sd (ge_tutorials_dag ev) rs))) =
         fold skip_task [task_validate_source_data_load, task_dbt ev,
                         task_validate_analytical_output, task_publish] rs"
proof -
  have 1: "scheduler_step ext ev u rid sd (ge_tutorials_dag ev) rs =
             skip_task task_validate_source_data_load rs"
    using step_2[OF assms(1)] assms(2) by simp
  have "states (skip_task task_validate_source_data_load rs) =
          [''task_load_files_into_db'' \<mapsto> a, ''task_validate_source_data_load'' \<mapsto> UpstreamFailed]"
    by (simp add: states_skip_task task_ids assms(1))
  from skip_from_3[OF this] 1 show ?thesis by simp
qed

lemma run_dag_in_order:
  "run_dag ext ev u rid sd (ge_tutorials_dag ev) w = run_in_order ext ev u rid sd (chain ev) (start w)"
proof -
  let ?g = "ge_tutorials_dag ev"
  let ?step = "scheduler_step ext ev u rid sd ?g"
  let ?run = "run_task ext ev u rid sd"
  define rs1 where "rs1 = ?run task_load_files_into_db (start w)"
  define rs2 where "rs2 = ?run task_validate_source_data_load rs1"
  define rs3 where "rs3 = ?run (task_dbt ev) rs2"
  define rs4 where "rs4 = ?run task_validate_analytical_output rs3"
  have lhs: "run_dag ext ev u rid sd ?g w = ?step (?step (?step (?step (?step (start w)))))"
    by (simp add: run_dag_def tasks_ge)
  have s1: "?step (start w) = rs1"
    by (simp add: step_1 start_def rs1_def)
  have st1: "states rs1 = [''task_load_files_into_db'' \<mapsto> Success] \<or>
             states rs1 = [''task_load_files_into_db'' \<mapsto> Failed]"
    using states_run_task[of ext ev u rid sd task_load_files_into_db "start w"]
    by (simp add: rs1_def task_ids start_def)
  show ?thesis
  proof (cases "states rs1 ''task_load_files_into_db'' = Some Success")
    case False
    with st1 have f: "states rs1 = [''task_load_files_into_db'' \<mapsto> Failed]" by auto
    show ?thesis
      using skip_from_2[OF f, of ext ev u rid sd] False
      by (simp add: lhs s1 chain_def rs1_def[symmetric] task_ids Let_def)
  next
    case True
    with st1 have t1: "states rs1 = [''task_load_files_into_db'' \<mapsto> Success]" by auto
    have s2: "?step rs1 = rs2" using step_2[OF t1] by (simp add: rs2_def)
    have st2: "states rs2 = [''task_load_files_into_db'' \<mapsto> Success,
                 ''task_validate_source_data_load'' \<mapsto> Success] \<or>
               states rs2 = [''task_load_files_into_db'' \<mapsto> Success,
                 ''task_validate_source_data_load'' \<mapsto> Failed]"
      using states_run_task[of ext ev u rid sd task_validate_source_data_load rs1]
      by (simp add: rs2_def task_ids t1)
    show ?thesis
    proof (cases "states rs2 ''task_validate_source_data_load'' = Some Success")
      case False
      with st2 have f: "states rs2 = [''task_load_files_into_db'' \<mapsto> Success,
                 ''task_validate_source_data_load'' \<mapsto> Failed]" by auto
      show ?thesis
        using skip_from_3[OF f, of ext ev u rid sd] False True
        by (simp add: lhs s1 s2 chain_def rs1_def[symmetric] rs2_def[symmetric] task_ids Let_def)
    next
      case True2: True
      with st2 have t2: "states rs2 = [''task_load_files_into_db'' \<mapsto> Success,
                 ''task_validate_source_data_load'' \<mapsto> Success]" by auto
      have s3: "?step rs2 = rs3" using step_3[OF t2] by (simp add: rs3_def)
      have st3: "states rs3 = [''task_load_files_into_db'' \<mapsto> Success,
                   ''task_validate_source_data_load'' \<mapsto> Success, ''task_dbt'' \<mapsto> Success] \<or>
                 states rs3 = [''task_load_files_into_db'' \<mapsto> Success,
                   ''task_validate_source_data_load'' \<mapsto> Success, ''task_dbt'' \<mapsto> Failed]"
        using states_run_task[of ext ev u rid sd "task_dbt ev" rs2]
        by (simp add: rs3_def task_ids t2)
      show ?thesis
      proof (cases "states rs3 ''task_dbt'' = Some Success")
        case False
        with st3 have f: "states rs3 = [''task_load_files_into_db'' \<mapsto> Success,
                   ''task_validate_source_data_load'' \<mapsto> Success, ''task_dbt'' \<mapsto> Failed]" by auto
        show ?thesis
          using skip_from_4[OF f, of ext ev u rid sd] False True True2
          by (simp add: lhs s1 s2 s3 chain_def rs1_def[symmetric] rs2_def[symmetric]
                rs3_def[symmetric] task_ids Let_def)
      next
        case True3: True
        with st3 have t3: "states rs3 = [''task_load_files_into_db'' \<mapsto> Success,
                   ''task_validate_source_data_load'' \<mapsto> Success, ''task_dbt'' \<mapsto> Success]" by auto
        have s4: "?step rs3 = rs4" using step_4[OF t3] by (simp add: rs4_def)
        have st4: "states rs4 = [''task_load_files_into_db'' \<mapsto> Success,
                     ''task_validate_source_data_load'' \<mapsto> Success, ''task_dbt'' \<mapsto> Success,
                     ''task_validate_analytical_output'' \<mapsto> Success] \<or>
                   states rs4 = [''task_load_files_into_db'' \<mapsto> Success,
                     ''task_validate_source_data_load'' \<mapsto> Success, ''task_dbt'' \<mapsto> Success,
                     ''task_validate_analytical_output'' \<mapsto> Failed]"
          using states_run_task[of ext ev u rid sd task_validate_analytical_output rs3]
          by (simp add: rs4_def task_ids t3)
        show ?thesis
        proof (cases "states rs4 ''task_validate_analytical_output'' = Some Success")
          case False
          with st4 have f: "states rs4 = [''task_load_files_into_db'' \<mapsto> Success,
                     ''task_validate_source_data_load'' \<mapsto> Success, ''task_dbt'' \<mapsto> Success,
                     ''task_validate_analytical_output'' \<mapsto> Failed]" by auto
          show ?thesis
            using skip_from_5[OF f, of ext ev u rid sd] False True True2 True3
            by (simp add: lhs s1 s2 s3 s4 chain_def rs1_def[symmetric] rs2_def[symmetric]
                  rs3_def[symmetric] rs4_def[symmetric] task_ids Let_def)
        next
          case True4: True
          with st4 have t4: "states rs4 = [''task_load_files_into_db'' \<mapsto> Success,
                     ''task_validate_source_data_load'' \<mapsto> Success, ''task_dbt'' \<mapsto> Success,
                     ''task_validate_analytical_output'' \<mapsto> Success]" by auto
          have s5: "?step rs4 = ?run task_publish rs4" using step_5[OF t4] by simp
          show ?thesis
            using True True2 True3 True4
            by (simp add: lhs s1 s2 s3 s4 s5 chain_def rs1_def[symmetric] rs2_def[symmetric]
                  rs3_def[symmetric] rs4_def[symmetric] task_ids Let_def)
        qed
      qed
    qed
  qed
qed


lemma executed_run_task [simp]:
  "executed (run_task ext ev u rid sd t rs) = executed rs @ [task_id t]"
  by (simp add: run_task_def split: prod.splits sum.splits)

lemma states_run_task_if:
  "states (run_task ext ev u rid sd t rs) =
     (states rs)(task_id t \<mapsto>
        (if isl (fst (execute_operator ext ev u t (context_of rid sd rs) (world_of rs)))
         then Failed else Success))"
  by (simp add: run_task_def split: prod.splits sum.splits)

lemma executed_skip_task [simp]: "executed (skip_task t rs) = executed rs"
  by (simp add: skip_task_def)

lemma xcom_skip_task [simp]: "xcom (skip_task t rs) = xcom rs"
  by (simp add: skip_task_def)

lemma run_in_order_outcome:
  assumes r: "r = run_in_order ext ev u rid sd (chain ev) (start w)"
  shows
   "(executed r = [''task_load_files_into_db''] \<and>
     states r = [''task_load_files_into_db'' \<mapsto> Failed,
                 ''task_validate_source_data_load'' \<mapsto> UpstreamFailed,
                 ''task_dbt'' \<mapsto> UpstreamFailed,
                 ''task_validate_analytical_output'' \<mapsto> UpstreamFailed,
                 ''task_publish'' \<mapsto> UpstreamFailed]) \<or>
    (executed r = [''task_load_files_into_db'', ''task_validate_source_data_load''] \<and>
     states r = [''task_load_files_into_db'' \<mapsto> Success,
                 ''task_validate_source_data_load'' \<mapsto> Failed,
                 ''task_dbt'' \<mapsto> UpstreamFailed,
                 ''task_validate_analytical_output'' \<mapsto> UpstreamFailed,
                 ''task_publish'' \<mapsto> UpstreamFailed]) \<or>
    (executed r = [''task_load_files_into_db'', ''task_validate_source_data_load'', ''task_dbt''] \<and>
     states r = [''task_load_files_into_db'' \<mapsto> Success,
                 ''task_validate_source_data_load'' \<mapsto> Success,
                 ''task_dbt'' \<mapsto> Failed,
                 ''task_validate_analytical_output'' \<mapsto> UpstreamFailed,
                 ''task_publish'' \<mapsto> UpstreamFailed]) \<or>
    (executed r = [''task_load_files_into_db'', ''task_validate_source_data_load'', ''task_dbt'',
                   ''task_validate_analytical_output''] \<and>
     states r = [''task_load_files_into_db'' \<mapsto> Success,
                 ''task_validate_source_data_load'' \<mapsto> Success,
                 ''task_dbt'' \<mapsto> Success,
                 ''task_validate_analytical_output'' \<mapsto> Failed,
                 ''task_publish'' \<mapsto> UpstreamFailed]) \<or>
    (executed r = [''task_load_files_into_db'', ''task_validate_source_data_load'', ''task_dbt'',
                   ''task_validate_analytical_output'', ''task_publish''] \<and>
     states r = [''task_load_files_into_db'' \<mapsto> Success,
                 ''task_validate_source_data_load'' \<mapsto> Success,
                 ''task_dbt'' \<mapsto> Success,
                 ''task_validate_analytical_output'' \<mapsto> Success,
                 ''task_publish'' \<mapsto> Failed]) \<or>
    (executed r = [''task_load_files_into_db'', ''task_validate_source_data_load'', ''task_dbt'',
                   ''task_validate_analytical_output'', ''task_publish''] \<and>
     states r = [''task_load_files_into_db'' \<mapsto> Success,
                 ''task_validate_source_data_load'' \<mapsto> Success,
                 ''task_dbt'' \<mapsto> Success,
                 ''task_validate_analytical_output'' \<mapsto> Success,
                 ''task_publish'' \<mapsto> Success])"
  unfolding r chain_def
  by (simp add: Let_def states_run_task_if states_skip_task task_ids start_def)

lemma validate_connected:
  assumes "data_context ext w = Inr ()"
    and "get_batch ext [(''table'', ''count_providers_by_state''), (''datasource'', ''datawarehouse'')]
           ''count_providers_by_state.critical'' (db w) = Inr b"
    and "kwargs ''dag_run'' = Some (DagRun rid sd)"
  shows "validate_analytical_output ext utcnow kwargs w =
    (let run_id = ''airflow:'' @ rid @ '':'' @ str_of ext sd;
         w1 = w\<lparr>trace := trace w @ [RunValidationOperator ''action_list_operator'' [b] run_id]\<rparr>
     in case run_validation_operator ext ''action_list_operator'' [b] run_id (db w) of
          Inl e \<Rightarrow> (Inl e, w1)
        | Inr results \<Rightarrow>
           (case results ''success'' of
              None \<Rightarrow> (Inl (KeyError ''success''), w1)
            | Some success \<Rightarrow>
                if truthy success then (Inr (), w1)
                else (Inl (AirflowException
                  ''The analytical output does not meet the expectations in the suite: count_providers_by_state.critical''),
                  w1)))"
  using assms
  by (simp add: validate_analytical_output_def dag_run_attributes_def call_validation_operator_def
        issue_def Let_def split: sum.splits option.splits)

text \<open>
  C4. Whenever the gate reaches the validation operator (the data context and the batch
  were obtained, and the scheduler's context holds the run), the run identifier it passes
  is the prefix \<open>airflow\<close>, the scheduler's run id and \<open>str\<close> of the run's start timestamp,
  in this order, each pair separated by \<open>:\<close>; the operator is called once, by the name
  \<open>action_list_operator\<close>, on that one batch.
\<close>

theorem validate_analytical_output_run_id:
  assumes "data_context ext w = Inr ()"
    and "get_batch ext [(''table'', ''count_providers_by_state''), (''datasource'', ''datawarehouse'')]
           ''count_providers_by_state.critical'' (db w) = Inr b"
    and "kwargs ''dag_run'' = Some (DagRun rid sd)"
  shows "trace (snd (validate_analytical_output ext utcnow kwargs w)) =
           trace w @ [RunValidationOperator ''action_list_operator'' [b]
                        (''airflow'' @ '':'' @ rid @ '':'' @ str_of ext sd)]"
  by (simp add: validate_connected[where kwargs=kwargs, OF assms] Let_def split: sum.splits option.splits)

text \<open>
  C8. The value of the clock does not reach anything the gate does: for two readings
  \<open>utcnow\<close> and \<open>utcnow'\<close> the gate returns the same result and the same world, the call
  of the validation operator with its run identifier included. The first assignment to
  \<open>run_id\<close> is overwritten before the variable is read.
\<close>

theorem validate_analytical_output_clock_free:
  "validate_analytical_output ext utcnow kwargs w = validate_analytical_output ext utcnow' kwargs w"
  by (simp add: validate_analytical_output_def Let_def cong: sum.case_cong)

lemma publish_iff_gate:
  assumes r: "r = run_in_order ext ev u rid sd (chain ev) (start w)"
  shows "(''task_publish'' \<in> set (executed r)) =
         (states r ''task_validate_analytical_output'' = Some Success)"
  using run_in_order_outcome[OF r] by auto

lemma world_of_run_task:
  "world_of (run_task ext ev u rid sd t rs) =
     snd (execute_operator ext ev u t (context_of rid sd rs) (world_of rs))"
  by (simp add: run_task_def split: prod.splits sum.splits)

lemma context_dag_run: "context_of rid sd rs ''dag_run'' = Some (DagRun rid sd)"
  by (simp add: context_of_def)

text \<open>
  The state the three tasks before the gate leave is where the gate is run, if it is
  run. When the gate raises there, the Publisher is not run.
\<close>

lemma publish_skipped_after_raise:
  assumes r: "r = run_in_order ext ev u rid sd (chain ev) (start w)"
    and rs3: "rs3 = run_in_order ext ev u rid sd
                [task_load_files_into_db, task_validate_source_data_load, task_dbt ev] (start w)"
    and raised: "fst (execute_operator ext ev u task_validate_analytical_output
                   (context_of rid sd rs3) (world_of rs3)) = Inl e"
  shows "''task_publish'' \<notin> set (executed r) \<and> states r ''task_publish'' = Some UpstreamFailed"
  using raised unfolding r rs3 chain_def
  by (auto simp: Let_def states_run_task_if states_skip_task task_ids start_def
      split: if_splits)

lemma gate_raises_on_false:
  assumes "data_context ext (world_of rs) = Inr ()"
    and "get_batch ext [(''table'', ''count_providers_by_state''), (''datasource'', ''datawarehouse'')]
           ''count_providers_by_state.critical'' (db (world_of rs)) = Inr b"
    and "run_validation_operator ext ''action_list_operator'' [b]
           (''airflow:'' @ rid @ '':'' @ str_of ext sd) (db (world_of rs)) = Inr results"
    and "results ''success'' = Some success" and "\<not> truthy success"
  shows "fst (execute_operator ext ev u task_validate_analytical_output
                (context_of rid sd rs) (world_of rs)) =
         Inl (AirflowException
           ''The analytical output does not meet the expectations in the suite: count_providers_by_state.critical'')"
  using assms(3-5)
  by (simp add: task_validate_analytical_output_def
        validate_connected[where kwargs="context_of rid sd rs", OF assms(1,2) context_dag_run]
        Let_def)

text \<open>
  C1. When the validation operator returns a result, the gate raises exactly when the
  value under \<open>success\<close> is false (for Python's \<open>not\<close>), and then the message of the
  AirflowException ends with the suite name \<open>count_providers_by_state.critical\<close>; when
  the value is true the gate returns without an error. In a run of the DAG, when that
  happens in the world \<open>w\<close> that the three tasks before the gate leave and the value is
  false, the Publisher is not run: it is marked upstream_failed. In every run the
  Publisher is run if and only if the gate task has succeeded.
\<close>

theorem validate_analytical_output_gate:
  assumes "data_context ext w = Inr ()"
    and "get_batch ext [(''table'', ''count_providers_by_state''), (''datasource'', ''datawarehouse'')]
           ''count_providers_by_state.critical'' (db w) = Inr b"
    and "kwargs ''dag_run'' = Some (DagRun rid sd)"
    and "run_validation_operator ext ''action_list_operator'' [b]
           (''airflow:'' @ rid @ '':'' @ str_of ext sd) (db w) = Inr results"
    and "results ''success'' = Some success"
  shows "fst (validate_analytical_output ext utcnow kwargs w) =
           (if truthy success then Inr ()
            else Inl (AirflowException
              (''The analytical output does not meet the expectations in the suite: '' @
               ''count_providers_by_state.critical''))) \<and>
         (w = world_of (run_in_order ext ev utcnow rid sd
                  [task_load_files_into_db, task_validate_source_data_load, task_dbt ev]
                  (start w0)) \<longrightarrow>
          \<not> truthy success \<longrightarrow>
            ''task_publish'' \<notin> set (executed (run_dag ext ev utcnow rid sd (ge_tutorials_dag ev) w0)) \<and>
            states (run_dag ext ev utcnow rid sd (ge_tutorials_dag ev) w0) ''task_publish'' =
              Some UpstreamFailed) \<and>
         ((''task_publish'' \<in> set (executed (run_dag ext ev utcnow rid' sd' (ge_tutorials_dag ev) w1))) =
          (states (run_dag ext ev utcnow rid' sd' (ge_tutorials_dag ev) w1)
             ''task_validate_analytical_output'' = Some Success))"
proof (intro conjI impI)
  show "fst (validate_analytical_output ext utcnow kwargs w) =
           (if truthy success then Inr ()
            else Inl (AirflowException
              (''The analytical output does not meet the expectations in the suite: '' @
               ''count_providers_by_state.critical'')))"
    using assms(4,5) by (simp add: validate_connected[where kwargs=kwargs, OF assms(1-3)] Let_def)
  show "(''task_publish'' \<in> set (executed (run_dag ext ev utcnow rid' sd' (ge_tutorials_dag ev) w1))) =
          (states (run_dag ext ev utcnow rid' sd' (ge_tutorials_dag ev) w1)
             ''task_validate_analytical_output'' = Some Success)"
    by (rule publish_iff_gate) (rule run_dag_in_order)
next
  define rs3 where "rs3 = run_in_order ext ev utcnow rid sd
      [task_load_files_into_db, task_validate_source_data_load, task_dbt ev] (start w0)"
  assume w: "w = world_of (run_in_order ext ev utcnow rid sd
                  [task_load_files_into_db, task_validate_source_data_load, task_dbt ev]
                  (start w0))"
    and f: "\<not> truthy success"
  from w have w': "w = world_of rs3" by (simp add: rs3_def)
  have "fst (execute_operator ext ev utcnow task_validate_analytical_output
               (context_of rid sd rs3) (world_of rs3)) =
        Inl (AirflowException
           ''The analytical output does not meet the expectations in the suite: count_providers_by_state.critical'')"
    using assms(1,2,4,5) f unfolding w' by (rule gate_raises_on_false)
  from publish_skipped_after_raise[OF run_dag_in_order rs3_def this]
  show "''task_publish'' \<notin> set (executed (run_dag ext ev utcnow rid sd (ge_tutorials_dag ev) w0))"
    and "states (run_dag ext ev utcnow rid sd (ge_tutorials_dag ev) w0) ''task_publish'' =
           Some UpstreamFailed"
    by simp_all
qed

text \<open>
  C5. A run of the DAG under the scheduler is the run of the five tasks one after the
  other in the order Loader, Source-validation gate, Transformer, Output-validation gate,
  Publisher, stopping at the first failure: the tasks run are a non-empty initial segment
  of that order; a task at the head of a dependency edge was run only if the task at its
  tail succeeded; a failed task is the last one run; and the tasks run are exactly those
  that succeeded or failed (the others are marked upstream_failed).
\<close>

theorem ge_tutorials_dag_linear_order:
  fixes ext :: "'d externals"
  assumes r: "r = run_dag ext ev utcnow rid sd (ge_tutorials_dag ev) w"
  shows "r = run_in_order ext ev utcnow rid sd (chain ev) (start w) \<and>
         (\<exists>n. 1 \<le> n \<and> n \<le> 5 \<and>
              executed r = take n [''task_load_files_into_db'', ''task_validate_source_data_load'',
                ''task_dbt'', ''task_validate_analytical_output'', ''task_publish'']) \<and>
         (\<forall>(a, b) \<in> set (edges (ge_tutorials_dag ev)).
              b \<in> set (executed r) \<longrightarrow> states r a = Some Success) \<and>
         (\<forall>t. states r t = Some Failed \<longrightarrow> last (executed r) = t) \<and>
         (\<forall>t. t \<in> set (executed r) \<longleftrightarrow> states r t = Some Success \<or> states r t = Some Failed)"
proof -
  have io: "r = run_in_order ext ev utcnow rid sd (chain ev) (start w)"
    by (simp add: r run_dag_in_order)
  note o = run_in_order_outcome[OF io]
  have 1: "\<exists>n. 1 \<le> n \<and> n \<le> 5 \<and>
              executed r = take n [''task_load_files_into_db'', ''task_validate_source_data_load'',
                ''task_dbt'', ''task_validate_analytical_output'', ''task_publish'']"
    using o
    apply (elim disjE conjE)
         apply (rule exI[of _ 1], simp)
        apply (rule exI[of _ 2], simp)
       apply (rule exI[of _ 3], simp)
      apply (rule exI[of _ 4], simp)
     apply (rule exI[of _ 5], simp)
    apply (rule exI[of _ 5], simp)
    done
  have 2: "\<forall>(a, b) \<in> set (edges (ge_tutorials_dag ev)).
              b \<in> set (executed r) \<longrightarrow> states r a = Some Success"
    using o by (auto simp: edges_ge)
  have 3: "\<forall>t. states r t = Some Failed \<longrightarrow> last (executed r) = t"
    using o by (auto split: if_splits)
  have 4: "\<forall>t. t \<in> set (executed r) \<longleftrightarrow> states r t = Some Success \<or> states r t = Some Failed"
    using o by (auto split: if_splits)
  from io 1 2 3 4 show ?thesis by blast
qed

lemma load_marker:
  "load_files_into_db lower ev kwargs w = (Inr r, w') \<Longrightarrow> r = ''Loaded files into the database''"
  by (auto simp: load_files_into_db_def split: sum.splits prod.splits)

lemma downstream_context:
  assumes "t \<in> set (tl (chain ev))" and "kw ''dag_run'' = kw' ''dag_run''"
  shows "execute_operator ext ev u t kw w = execute_operator ext ev u t kw' w"
proof -
  have d: "dag_run_attributes kw = dag_run_attributes kw'"
    using assms(2) by (simp add: dag_run_attributes_def)
  have v: "validate_analytical_output ext u kw w = validate_analytical_output ext u kw' w"
    unfolding validate_analytical_output_def d by (rule refl)
  from assms(1) show ?thesis
    by (auto simp: chain_def task_validate_source_data_load_def task_dbt_def
        task_validate_analytical_output_def task_publish_def v)
qed

lemma xcom_run_task_load:
  "states (run_task ext ev u rid sd task_load_files_into_db rs) ''task_load_files_into_db'' = Some Success
   \<Longrightarrow> xcom (run_task ext ev u rid sd task_load_files_into_db rs) ''task_load_files_into_db'' =
        Some ''Loaded files into the database''"
  by (auto simp: run_task_def task_load_files_into_db_def split: prod.splits sum.splits if_splits
      dest: load_marker)

lemma xcom_fold_skip [simp]: "xcom (fold skip_task ts rs) = xcom rs"
  by (induction ts arbitrary: rs) simp_all

lemma states_fold_skip_other:
  "n \<notin> task_id ` set ts \<Longrightarrow> states (fold skip_task ts rs) n = states rs n"
  by (induction ts arbitrary: rs) (simp_all add: states_skip_task)

lemma states_run_task_other:
  "n \<noteq> task_id t \<Longrightarrow> states (run_task ext ev u rid sd t rs) n = states rs n"
  by (simp add: states_run_task_if)

lemma xcom_run_task_other:
  "n \<noteq> task_id t \<Longrightarrow> xcom (run_task ext ev u rid sd t rs) n = xcom rs n"
  by (simp add: run_task_def split: prod.splits sum.splits option.splits)

lemma run_in_order_keeps:
  "n \<notin> task_id ` set ts \<Longrightarrow>
   xcom (run_in_order ext ev u rid sd ts rs) n = xcom rs n \<and>
   states (run_in_order ext ev u rid sd ts rs) n = states rs n"
  by (induction ts arbitrary: rs)
     (simp_all add: Let_def xcom_run_task_other states_run_task_other states_fold_skip_other)

lemma xcom_load:
  assumes r: "r = run_in_order ext ev u rid sd (chain ev) (start w)"
    and s: "states r ''task_load_files_into_db'' = Some Success"
  shows "xcom r ''task_load_files_into_db'' = Some ''Loaded files into the database''"
proof -
  let ?rs1 = "run_task ext ev u rid sd task_load_files_into_db (start w)"
  let ?rest = "[task_validate_source_data_load, task_dbt ev,
                task_validate_analytical_output, task_publish]"
  have n: "''task_load_files_into_db'' \<notin> task_id ` set ?rest"
    by (simp add: task_ids)
  have k: "xcom (run_in_order ext ev u rid sd ?rest ?rs1) ''task_load_files_into_db'' =
             xcom ?rs1 ''task_load_files_into_db''"
          "states (run_in_order ext ev u rid sd ?rest ?rs1) ''task_load_files_into_db'' =
             states ?rs1 ''task_load_files_into_db''"
    using run_in_order_keeps[OF n, of ext ev u rid sd ?rs1] by blast+
  show ?thesis
  proof (cases "states ?rs1 ''task_load_files_into_db'' = Some Success")
    case True
    then have "r = run_in_order ext ev u rid sd ?rest ?rs1"
      by (simp add: r chain_def Let_def task_ids)
    with k xcom_run_task_load[OF True] show ?thesis by simp
  next
    case False
    then have "r = fold skip_task ?rest ?rs1"
      by (simp add: r chain_def Let_def task_ids)
    with s False show ?thesis
      by (simp add: states_skip_task task_ids)
  qed
qed

text \<open>
  C7. Whenever the Loader returns, it returns the marker
  \<open>Loaded files into the database\<close>; in a run where the Loader task succeeded the
  scheduler holds that marker as the task's output (XCom); and no later task of the chain
  reads it: what each of them does depends on the context only through the entry
  \<open>dag_run\<close>, not through the task instance that gives access to earlier outputs.
\<close>

theorem load_files_into_db_marker:
  "(load_files_into_db lower ev kwargs w = (Inr m, w') \<longrightarrow> m = ''Loaded files into the database'') \<and>
   (states (run_dag ext ev u rid sd (ge_tutorials_dag ev) w) ''task_load_files_into_db'' = Some Success
      \<longrightarrow> xcom (run_dag ext ev u rid sd (ge_tutorials_dag ev) w) ''task_load_files_into_db'' =
            Some ''Loaded files into the database'') \<and>
   (\<forall>t \<in> set (tl (chain ev)). \<forall>kw kw' w0.
       kw ''dag_run'' = kw' ''dag_run'' \<longrightarrow>
       execute_operator ext ev u t kw w0 = execute_operator ext ev u t kw' w0)"
proof (intro conjI)
  show "load_files_into_db lower ev kwargs w = (Inr m, w') \<longrightarrow> m = ''Loaded files into the database''"
    by (auto dest: load_marker)
  show "states (run_dag ext ev u rid sd (ge_tutorials_dag ev) w) ''task_load_files_into_db'' = Some Success
      \<longrightarrow> xcom (run_dag ext ev u rid sd (ge_tutorials_dag ev) w) ''task_load_files_into_db'' =
            Some ''Loaded files into the database''"
  proof
    assume a: "states (run_dag ext ev u rid sd (ge_tutorials_dag ev) w) ''task_load_files_into_db'' =
                 Some Success"
    show "xcom (run_dag ext ev u rid sd (ge_tutorials_dag ev) w) ''task_load_files_into_db'' =
            Some ''Loaded files into the database''"
      by (rule xcom_load[OF run_dag_in_order a])
  qed
  show "\<forall>t \<in> set (tl (chain ev)). \<forall>kw kw' w0.
       kw ''dag_run'' = kw' ''dag_run'' \<longrightarrow>
       execute_operator ext ev u t kw w0 = execute_operator ext ev u t kw' w0"
    using downstream_context by blast
qed

lemma example_lower: "str_lower (example_ext flag) = ascii_lower"
  by (simp add: example_ext_def)

lemma example_load:
  "execute_operator (example_ext flag) example_env u task_load_files_into_db kw example_world =
     (Inr (Some ''Loaded files into the database''),
      snd (load_files_into_db ascii_lower example_env kw example_world))"
  by (simp add: task_load_files_into_db_def example_lower
        load_connected[OF example_connection(1,2)] example_paths example_files Let_def)

lemma example_loaded:
  "reachable (snd (load_files_into_db ascii_lower example_env kw example_world))"
  "db (snd (load_files_into_db ascii_lower example_env kw example_world)) ''prod_count_providers_by_state'' = None"
proof -
  show "reachable (snd (load_files_into_db ascii_lower example_env kw example_world))"
    by (simp add: load_reachable_unchanged example_connection)
  have "dropped (db example_world) ''prod_count_providers_by_state'' = None"
    by (simp add: dropped_def drop_cascade_def example_world_def)
  then show "db (snd (load_files_into_db ascii_lower example_env kw example_world))
               ''prod_count_providers_by_state'' = None"
    by (simp add: load_db[OF example_connection(1,2)] loaded_db_def example_paths example_files)
qed

lemma example_bash:
  "execute_operator (example_ext flag) example_env u task_validate_source_data_load kw w =
     (Inr None, issue (Bash []) w)"
  "execute_operator (example_ext flag) example_env u (task_dbt example_env) kw w =
     (Inr None, issue (Bash ''dbt run --project-dir /project'')
        (w\<lparr>db := (db w)(''count_providers_by_state'' \<mapsto> new_counts)\<rparr>))"
  by (simp_all add: task_validate_source_data_load_def task_dbt_def run_bash_def example_ext_def
      format_env_def example_env_def)

lemma example_validate:
  assumes "kw ''dag_run'' = Some (DagRun rid sd)"
  shows "execute_operator (example_ext flag) example_env u task_validate_analytical_output kw w =
     ((if flag then Inr None
       else Inl (AirflowException
         ''The analytical output does not meet the expectations in the suite: count_providers_by_state.critical'')),
      issue (RunValidationOperator ''action_list_operator''
               [\<lparr>batch_kwargs = [(''table'', ''count_providers_by_state''),
                                  (''datasource'', ''datawarehouse'')],
                 expectation_suite_name = ''count_providers_by_state.critical''\<rparr>]
               (''airflow:'' @ rid @ '':'' @ sd)) w)"
proof -
  have 1: "data_context (example_ext flag) w = Inr ()"
    by (simp add: example_ext_def)
  have 2: "get_batch (example_ext flag)
             [(''table'', ''count_providers_by_state''), (''datasource'', ''datawarehouse'')]
             ''count_providers_by_state.critical'' (db w) =
           Inr \<lparr>batch_kwargs = [(''table'', ''count_providers_by_state''),
                                  (''datasource'', ''datawarehouse'')],
                 expectation_suite_name = ''count_providers_by_state.critical''\<rparr>"
    by (simp add: example_ext_def)
  show ?thesis
    by (simp add: task_validate_analytical_output_def
          validate_connected[where kwargs=kw, OF 1 2 assms] Let_def issue_def)
       (simp add: example_ext_def)
qed

lemma example_publish:
  assumes "reachable w" and "db w ''count_providers_by_state'' = Some t"
    and "db w ''prod_count_providers_by_state'' = None"
  shows "fst (execute_operator (example_ext flag) example_env u task_publish kw w) = Inr None"
  using assms
  by (simp add: task_publish_def publish_to_prod_def create_engine_def connect_def
        conn_execute_def issue_def drop_table_def rename_table_def example_env_def)

lemmas example_run =
  run_dag_in_order chain_def Let_def states_run_task_if world_of_run_task context_dag_run
  example_load example_loaded example_bash example_validate example_publish
  task_ids start_def issue_def

lemma example_run_success:
  "executed (run_dag (example_ext True) example_env ''20200101T000000.000000Z'' ''manual__2020-01-01''
      ''2020-01-01 00:00:00+00:00'' (ge_tutorials_dag example_env) example_world) =
   [''task_load_files_into_db'', ''task_validate_source_data_load'', ''task_dbt'',
    ''task_validate_analytical_output'', ''task_publish'']"
  by (simp add: example_run)

lemma example_run_failure:
  "executed (run_dag (example_ext False) example_env ''20200101T000000.000000Z'' ''manual__2020-01-01''
      ''2020-01-01 00:00:00+00:00'' (ge_tutorials_dag example_env) example_world) =
   [''task_load_files_into_db'', ''task_validate_source_data_load'', ''task_dbt'',
    ''task_validate_analytical_output'']"
  by (simp add: example_run)

section \<open>Concrete runs\<close>

lemma example_gate_inputs:
  "data_context (example_ext flag) w = Inr ()"
  "get_batch (example_ext flag)
     [(''table'', ''count_providers_by_state''), (''datasource'', ''datawarehouse'')]
     ''count_providers_by_state.critical'' (db w) =
   Inr \<lparr>batch_kwargs = [(''table'', ''count_providers_by_state''),
                         (''datasource'', ''datawarehouse'')],
        expectation_suite_name = ''count_providers_by_state.critical''\<rparr>"
  "example_kwargs ''dag_run'' = Some (DagRun ''manual__2020-01-01'' ''2020-01-01 00:00:00+00:00'')"
  "run_validation_operator (example_ext flag) name assets run_id d = Inr [''success'' \<mapsto> PyBool flag]"
  "str_of (example_ext flag) s = s"
  by (simp_all add: example_ext_def example_kwargs_def)

theorem validate_analytical_output_run_id_witness:
  "trace (snd (validate_analytical_output (example_ext True) ''20200101T000000.000000Z''
                 example_kwargs example_world)) =
   [RunValidationOperator ''action_list_operator''
      [\<lparr>batch_kwargs = [(''table'', ''count_providers_by_state''),
                         (''datasource'', ''datawarehouse'')],
        expectation_suite_name = ''count_providers_by_state.critical''\<rparr>]
      ''airflow:manual__2020-01-01:2020-01-01 00:00:00+00:00'']"
  using validate_analytical_output_run_id[where kwargs=example_kwargs and utcnow="''20200101T000000.000000Z''",
      OF example_gate_inputs(1) example_gate_inputs(2) example_gate_inputs(3),
      of True example_world]
  by (simp add: example_gate_inputs(5) example_world_def)

theorem validate_analytical_output_clock_free_witness:
  "validate_analytical_output (example_ext True) ''20200101T000000.000000Z'' example_kwargs example_world =
   validate_analytical_output (example_ext True) ''20250505T121212.000000Z'' example_kwargs example_world"
  by (rule validate_analytical_output_clock_free)

theorem validate_analytical_output_gate_witness:
  "fst (validate_analytical_output (example_ext False) ''20200101T000000.000000Z'' example_kwargs
          (world_of (run_in_order (example_ext False) example_env ''20200101T000000.000000Z''
             ''manual__2020-01-01'' ''2020-01-01 00:00:00+00:00''
             [task_load_files_into_db, task_validate_source_data_load, task_dbt example_env]
             (start example_world)))) =
     Inl (AirflowException
       ''The analytical output does not meet the expectations in the suite: count_providers_by_state.critical'') \<and>
   fst (validate_analytical_output (example_ext True) ''20200101T000000.000000Z''
          example_kwargs example_world) = Inr () \<and>
   ''task_publish'' \<notin> set (executed (run_dag (example_ext False) example_env
      ''20200101T000000.000000Z'' ''manual__2020-01-01'' ''2020-01-01 00:00:00+00:00''
      (ge_tutorials_dag example_env) example_world)) \<and>
   states (run_dag (example_ext False) example_env
      ''20200101T000000.000000Z'' ''manual__2020-01-01'' ''2020-01-01 00:00:00+00:00''
      (ge_tutorials_dag example_env) example_world) ''task_publish'' = Some UpstreamFailed \<and>
   executed (run_dag (example_ext False) example_env
      ''20200101T000000.000000Z'' ''manual__2020-01-01'' ''2020-01-01 00:00:00+00:00''
      (ge_tutorials_dag example_env) example_world) =
     [''task_load_files_into_db'', ''task_validate_source_data_load'', ''task_dbt'',
      ''task_validate_analytical_output'']"
proof -
  let ?w = "world_of (run_in_order (example_ext False) example_env ''20200101T000000.000000Z''
             ''manual__2020-01-01'' ''2020-01-01 00:00:00+00:00''
             [task_load_files_into_db, task_validate_source_data_load, task_dbt example_env]
             (start example_world))"
  have s: "[''success'' \<mapsto> PyBool flag] ''success'' = Some (PyBool flag)" for flag
    by simp
  note g = validate_analytical_output_gate[where kwargs=example_kwargs
      and utcnow="''20200101T000000.000000Z''" and ev=example_env
      and ?w0.0=example_world,
      OF example_gate_inputs(1) example_gate_inputs(2) example_gate_inputs(3)
         example_gate_inputs(4) s]
  from g[of False ?w] g[of True example_world] example_run_failure
  show ?thesis by simp
qed

theorem ge_tutorials_dag_linear_order_witness:
  "executed (run_dag (example_ext True) example_env ''20200101T000000.000000Z''
      ''manual__2020-01-01'' ''2020-01-01 00:00:00+00:00''
      (ge_tutorials_dag example_env) example_world) =
     [''task_load_files_into_db'', ''task_validate_source_data_load'', ''task_dbt'',
      ''task_validate_analytical_output'', ''task_publish''] \<and>
   states (run_dag (example_ext True) example_env ''20200101T000000.000000Z''
      ''manual__2020-01-01'' ''2020-01-01 00:00:00+00:00''
      (ge_tutorials_dag example_env) example_world) ''task_validate_analytical_output'' =
     Some Success"
proof -
  let ?r = "run_dag (example_ext True) example_env ''20200101T000000.000000Z''
      ''manual__2020-01-01'' ''2020-01-01 00:00:00+00:00''
      (ge_tutorials_dag example_env) example_world"
  from ge_tutorials_dag_linear_order[where r="?r" and ext="example_ext True" and ev=example_env
      and utcnow="''20200101T000000.000000Z''" and rid="''manual__2020-01-01''"
      and sd="''2020-01-01 00:00:00+00:00''" and w=example_world, OF refl]
  have e: "\<forall>(a, b) \<in> set (edges (ge_tutorials_dag example_env)).
             b \<in> set (executed ?r) \<longrightarrow> states ?r a = Some Success"
    by blast
  have "(''task_validate_analytical_output'', ''task_publish'') \<in>
          set (edges (ge_tutorials_dag example_env))"
    by (simp add: edges_ge)
  with e have "''task_publish'' \<in> set (executed ?r) \<longrightarrow>
                 states ?r ''task_validate_analytical_output'' = Some Success"
    by blast
  with example_run_success show ?thesis by simp
qed

theorem load_files_into_db_marker_witness:
  "fst (load_files_into_db ascii_lower example_env example_kwargs example_world) =
     Inr ''Loaded files into the database'' \<and>
   xcom (run_dag (example_ext True) example_env ''20200101T000000.000000Z''
      ''manual__2020-01-01'' ''2020-01-01 00:00:00+00:00''
      (ge_tutorials_dag example_env) example_world) ''task_load_files_into_db'' =
     Some ''Loaded files into the database''"
proof -
  have l: "load_files_into_db ascii_lower example_env example_kwargs example_world =
             (Inr ''Loaded files into the database'',
              snd (load_files_into_db ascii_lower example_env example_kwargs example_world))"
    by (simp add: load_connected[OF example_connection(1,2)] example_paths example_files Let_def)
  have st: "states (run_dag (example_ext True) example_env ''20200101T000000.000000Z''
      ''manual__2020-01-01'' ''2020-01-01 00:00:00+00:00''
      (ge_tutorials_dag example_env) example_world) ''task_load_files_into_db'' = Some Success"
    by (simp add: example_run states_skip_task)
  from load_files_into_db_marker[where lower=ascii_lower and ev=example_env
      and kwargs=example_kwargs and w=example_world
      and m="''Loaded files into the database''"
      and w'="snd (load_files_into_db ascii_lower example_env example_kwargs example_world)"
      and ext="example_ext True" and u="''20200101T000000.000000Z''"
      and rid="''manual__2020-01-01''" and sd="''2020-01-01 00:00:00+00:00''"] l st
  have "xcom (run_dag (example_ext True) example_env ''20200101T000000.000000Z''
      ''manual__2020-01-01'' ''2020-01-01 00:00:00+00:00''
      (ge_tutorials_dag example_env) example_world) ''task_load_files_into_db'' =
     Some ''Loaded files into the database''"
    by simp
  moreover from l have "fst (load_files_into_db ascii_lower example_env example_kwargs example_world) =
     Inr ''Loaded files into the database''"
    by (metis fst_conv)
  ultimately show ?thesis by simp
qed

end
